theory Spec2Isabelle
  imports Main
begin

section \<open>The OAuth session module\<close>

text \<open>
  A shallow embedding of the OAuth session module: the session store with its lazy
  eviction, \<open>startOAuthSession\<close>, \<open>getOAuthStatus\<close>, \<open>completeOAuthCallback\<close> and
  \<open>renderOAuthResultPage\<close>, with the helpers they call.

  Conventions of the embedding.
  \<^item> A JavaScript string is a HOL \<open>string\<close> holding its UTF-8 bytes. The module only
    searches for ASCII characters, which are single bytes in UTF-8 and never part of a
    longer sequence, so replacing, escaping and comparing on the bytes is the same as on
    the code units. (A lone surrogate has no UTF-8 form and is outside the model.)
  \<^item> A string argument that may be missing (\<open>undefined\<close> or \<open>null\<close>) is a
    \<open>string option\<close>. The \<open>authManager\<close> argument is \<open>Inl\<close> of \<open>undefined\<close> or \<open>null\<close>, or
    \<open>Inr\<close> of the manager.
  \<^item> \<open>Date.now()\<close> is an integer number of milliseconds; each reading of the clock
    is a parameter.
  \<^item> The module-level \<open>sessions\<close> Map is passed in and returned.
  \<^item> A call of the asynchronous \<open>completeOAuthCallback\<close> is modelled as running to its
    end: no other request is interleaved at its two \<open>await\<close>s.
\<close>

subsection \<open>Strings\<close>

text \<open>
  The test \<open>if (v)\<close> on an argument that is a string or missing: the string when
  the argument is truthy, that is, there and not empty.
\<close>

definition truthy :: "string option \<Rightarrow> string option" where
  "truthy v = (case v of None \<Rightarrow> None | Some s \<Rightarrow> if s = [] then None else Some s)"

text \<open>\<open>a || b\<close> for a possibly missing string \<open>a\<close> and a string \<open>b\<close>.\<close>

definition or_else :: "string option \<Rightarrow> string \<Rightarrow> string" where
  "or_else a b = (case a of None \<Rightarrow> b | Some s \<Rightarrow> if s \<noteq> [] then s else b)"

text \<open>\<open>Array.prototype.join\<close> on strings.\<close>

fun join :: "string \<Rightarrow> string list \<Rightarrow> string" where
  "join sep [] = []"
| "join sep [x] = x"
| "join sep (x # y # ys) = x @ sep @ join sep (y # ys)"

text \<open>
  \<open>String.prototype.replaceAll\<close> with a string pattern: the matches are found from left
  to right and do not overlap; the empty pattern matches between all characters.
\<close>

fun replaceAll :: "string \<Rightarrow> string \<Rightarrow> string \<Rightarrow> string" where
  "replaceAll pat rep [] = (if pat = [] then rep else [])"
| "replaceAll pat rep (c # cs) =
     (if pat = [] then rep @ c # replaceAll pat rep cs
      else if take (length pat) (c # cs) = pat
      then rep @ replaceAll pat rep (drop (length pat - 1) cs)
      else c # replaceAll pat rep cs)"

text \<open>
  The white space and line terminators that \<open>trim\<close> and \<open>parseInt\<close> skip, in UTF-8:
  U+0009 to U+000D, U+0020, U+00A0, U+1680, U+2000 to U+200A, U+2028, U+2029, U+202F,
  U+205F, U+3000 and U+FEFF.
\<close>

definition js_whitespace :: "string list" where
  "js_whitespace =
     [[CHR 0x09], [CHR 0x0A], [CHR 0x0B], [CHR 0x0C], [CHR 0x0D], [CHR 0x20],
      [CHR 0xC2, CHR 0xA0], [CHR 0xE1, CHR 0x9A, CHR 0x80],
      [CHR 0xE2, CHR 0x80, CHR 0x80], [CHR 0xE2, CHR 0x80, CHR 0x81],
      [CHR 0xE2, CHR 0x80, CHR 0x82], [CHR 0xE2, CHR 0x80, CHR 0x83],
      [CHR 0xE2, CHR 0x80, CHR 0x84], [CHR 0xE2, CHR 0x80, CHR 0x85],
      [CHR 0xE2, CHR 0x80, CHR 0x86], [CHR 0xE2, CHR 0x80, CHR 0x87],
      [CHR 0xE2, CHR 0x80, CHR 0x88], [CHR 0xE2, CHR 0x80, CHR 0x89],
      [CHR 0xE2, CHR 0x80, CHR 0x8A], [CHR 0xE2, CHR 0x80, CHR 0xA8],
      [CHR 0xE2, CHR 0x80, CHR 0xA9], [CHR 0xE2, CHR 0x80, CHR 0xAF],
      [CHR 0xE2, CHR 0x81, CHR 0x9F], [CHR 0xE3, CHR 0x80, CHR 0x80],
      [CHR 0xEF, CHR 0xBB, CHR 0xBF]]"

function strip_prefixes :: "string list \<Rightarrow> string \<Rightarrow> string" where
  "strip_prefixes ws s =
     (case List.find (\<lambda>w. w \<noteq> [] \<and> take (length w) s = w) ws of
        None \<Rightarrow> s
      | Some w \<Rightarrow> strip_prefixes ws (drop (length w) s))"
  by pat_completeness auto
termination
proof (relation "measure (\<lambda>(ws, s). length s)")
  show "wf (measure (\<lambda>(ws, s). length s))" by simp
next
  fix ws :: "string list" and s w :: string
  assume "List.find (\<lambda>w. w \<noteq> [] \<and> take (length w) s = w) ws = Some w"
  then have w: "w \<noteq> []" "take (length w) s = w"
    by (auto simp: find_Some_iff)
  then have "s \<noteq> []" by auto
  with w show "((ws, drop (length w) s), (ws, s)) \<in> measure (\<lambda>(ws, s). length s)"
    by simp
qed

definition trimStart :: "string \<Rightarrow> string" where
  "trimStart s = strip_prefixes js_whitespace s"

definition trimEnd :: "string \<Rightarrow> string" where
  "trimEnd s = rev (strip_prefixes (map rev js_whitespace) (rev s))"

definition trim :: "string \<Rightarrow> string" where
  "trim s = trimEnd (trimStart s)"

subsection \<open>Numbers and configuration values\<close>

text \<open>
  A Number is \<open>NaN\<close>, an infinity, or finite. The module does two things with a
  Number: it asks whether it is finite, and it prints it in a template literal. A finite
  Number is therefore given by the text that \<open>Number::toString\<close> prints for it:
  \<open>Finite ''8080''\<close>, \<open>Finite ''8080.5''\<close>, \<open>Finite ''1e+21''\<close>. Two finite Numbers print
  the same text only if they are the same Number or the two zeros, which both print
  \<open>0\<close>.
\<close>

datatype jsnum = Finite string | NaN | Infinity | Neg_Infinity

fun Number_isFinite :: "jsnum \<Rightarrow> bool" where
  "Number_isFinite (Finite t) = True"
| "Number_isFinite _ = False"

text \<open>\<open>Number::toString\<close>, as a template literal applies it.\<close>

fun Number_toString :: "jsnum \<Rightarrow> string" where
  "Number_toString (Finite t) = t"
| "Number_toString NaN = ''NaN''"
| "Number_toString Infinity = ''Infinity''"
| "Number_toString Neg_Infinity = ''-Infinity''"

text \<open>The decimal numeral of a natural number.\<close>

fun decimal :: "nat \<Rightarrow> string" where
  "decimal n =
     (if n < 10 then [char_of (48 + n)] else decimal (n div 10) @ [char_of (48 + n mod 10)])"

text \<open>
  The double nearest to a natural number, ties to even; there is none from
  \<open>2^1024 - 2^970\<close> on, where the Number is an infinity. \<open>dbl_exponent n\<close> is the number of
  low bits that do not fit into the 53 bits of the significand.
\<close>

fun dbl_exponent :: "nat \<Rightarrow> nat" where
  "dbl_exponent n = (if n < 2 ^ 53 then 0 else Suc (dbl_exponent (n div 2)))"

definition round_double :: "nat \<Rightarrow> nat option" where
  "round_double n =
     (let e = dbl_exponent n;
          q = n div 2 ^ e;
          r = n mod 2 ^ e;
          q' = (if 2 * r > 2 ^ e \<or> (2 * r = 2 ^ e \<and> odd q) then q + 1 else q);
          v = q' * 2 ^ e
      in if v \<ge> 2 ^ 1024 then None else Some v)"

text \<open>
  What \<open>Number::toString\<close> prints for a double \<open>v\<close> that is a natural number. It prints
  the shortest digits \<open>s\<close> such that \<open>s\<close> followed by some number \<open>j\<close> of zeros is a
  number that rounds to \<open>v\<close>; of two such \<open>s\<close> of the same length the one nearer to \<open>v\<close>,
  and the even one when they are as near. \<open>shortest_at v j\<close> is that number for \<open>j\<close>
  zeros, if there is one: it is the multiple of \<open>10^j\<close> just below or just above \<open>v\<close>.
  \<open>shortest_decimal v\<close> tries the largest \<open>j\<close> first. Below \<open>10^21\<close> the number is
  printed with its zeros, and from there on with an exponent.
\<close>

definition shortest_at :: "nat \<Rightarrow> nat \<Rightarrow> nat option" where
  "shortest_at v j =
     (let a = (v div 10 ^ j) * 10 ^ j;
          b = a + 10 ^ j;
          a_rounds_to_v = (round_double a = Some v);
          b_rounds_to_v = (round_double b = Some v)
      in if a_rounds_to_v \<and> b_rounds_to_v then
           Some (if v - a < b - v then a
                 else if b - v < v - a then b
                 else if even (v div 10 ^ j) then a else b)
         else if a_rounds_to_v then Some a
         else if b_rounds_to_v then Some b
         else None)"

fun shortest_from :: "nat \<Rightarrow> nat \<Rightarrow> nat" where
  "shortest_from v 0 = v"
| "shortest_from v (Suc j) =
     (case shortest_at v (Suc j) of Some w \<Rightarrow> w | None \<Rightarrow> shortest_from v j)"

definition shortest_decimal :: "nat \<Rightarrow> nat" where
  "shortest_decimal v = shortest_from v (length (decimal v) - 1)"

definition exponent_form :: "nat \<Rightarrow> string" where
  "exponent_form w =
     (let ds = decimal w;
          significant = rev (dropWhile (\<lambda>c. c = CHR ''0'') (rev ds))
      in hd significant # (if tl significant = [] then [] else CHR ''.'' # tl significant) @
         ''e+'' @ decimal (length ds - 1))"

definition integer_text :: "nat \<Rightarrow> string" where
  "integer_text v =
     (let w = shortest_decimal v in if w < 10 ^ 21 then decimal w else exponent_form w)"

text \<open>The Number for a mathematical integer.\<close>

definition Number_of_int :: "int \<Rightarrow> jsnum" where
  "Number_of_int i =
     (case round_double (nat \<bar>i\<bar>) of
        None \<Rightarrow> if i < 0 then Neg_Infinity else Infinity
      | Some v \<Rightarrow> Finite (if i < 0 then ''-'' @ integer_text v else integer_text v))"

definition char_between :: "char \<Rightarrow> char \<Rightarrow> char \<Rightarrow> bool" where
  "char_between lo hi c = ((of_char lo :: nat) \<le> of_char c \<and> (of_char c :: nat) \<le> of_char hi)"

definition is_digit :: "char \<Rightarrow> bool" where
  "is_digit c = char_between CHR ''0'' CHR ''9'' c"

definition digits_value :: "string \<Rightarrow> nat" where
  "digits_value ds = foldl (\<lambda>acc c. 10 * acc + (of_char c - 48)) 0 ds"

text \<open>
  \<open>Number.parseInt(s, 10)\<close>: leading white space is skipped, then an optional sign,
  then the longest run of decimal digits is read; with no digit the result is \<open>NaN\<close>.
  The digits are read exactly, however many there are, as Node.js does (the standard
  lets an implementation read the digits after the twentieth as zeros).
\<close>

definition parseInt10 :: "string \<Rightarrow> jsnum" where
  "parseInt10 s =
     (let s1 = trimStart s;
          (negative, s2) =
            (case s1 of
               [] \<Rightarrow> (False, [])
             | c # cs \<Rightarrow>
                 if c = CHR ''-'' then (True, cs)
                 else if c = CHR ''+'' then (False, cs)
                 else (False, s1));
          z = takeWhile is_digit s2
      in if z = [] then NaN
         else Number_of_int (if negative then - int (digits_value z) else int (digits_value z)))"

text \<open>
  The values a configuration can hold. An object is the list of its properties, each
  name once.
\<close>

datatype jsval =
    JUndefined
  | JNull
  | JBoolean bool
  | JNumber jsnum
  | JString string
  | JObject "(string \<times> jsval) list"

text \<open>
  \<open>v?.name\<close>: \<open>undefined\<close> when \<open>v\<close> is \<open>undefined\<close> or \<open>null\<close>, and the property
  otherwise (\<open>undefined\<close> when \<open>v\<close> has none of that name; the names read here,
  \<open>server\<close> and \<open>port\<close>, are not properties of a primitive value).
\<close>

fun optional_property :: "jsval \<Rightarrow> string \<Rightarrow> jsval" where
  "optional_property (JObject props) name =
     (case map_of props name of None \<Rightarrow> JUndefined | Some v \<Rightarrow> v)"
| "optional_property _ name = JUndefined"

subsection \<open>escapeHtml\<close>

definition escapeHtml :: "string option \<Rightarrow> string" where
  \<open>escapeHtml str =
     (let s0 = or_else str [];
          s1 = replaceAll ''&'' ''&amp;'' s0;
          s2 = replaceAll ''<'' ''&lt;'' s1;
          s3 = replaceAll ''>'' ''&gt;'' s2;
          s4 = replaceAll ''"'' ''&quot;'' s3
      in replaceAll [CHR 0x27] ''&#39;'' s4)\<close>

text \<open>
  The encoding that the specification asks of \<open>escapeHtml\<close>, character by character:
  \<open>& < > " '\<close> become entities and every other character stays. It is stated here to
  be compared with the chain of replacements above.
\<close>

definition html_entity :: "char \<Rightarrow> string" where
  \<open>html_entity c =
     (if c = CHR ''&'' then ''&amp;''
      else if c = CHR ''<'' then ''&lt;''
      else if c = CHR ''>'' then ''&gt;''
      else if c = CHR ''"'' then ''&quot;''
      else if c = CHR 0x27 then ''&#39;''
      else [c])\<close>

subsection \<open>resolveServerPort\<close>

text \<open>The literal \<open>3000\<close> is the Number that prints as \<open>3000\<close>.\<close>

definition resolveServerPort :: "jsval \<Rightarrow> jsnum" where
  "resolveServerPort config =
     (let rawPort = optional_property (optional_property config ''server'') ''port'' in
      case rawPort of
        JNumber n \<Rightarrow> if Number_isFinite n then n else Finite ''3000''
      | JString s \<Rightarrow>
          if trim s \<noteq> [] then
            (let parsed = parseInt10 (trim s) in
             if Number_isFinite parsed then parsed else Finite ''3000'')
          else Finite ''3000''
      | _ \<Rightarrow> Finite ''3000'')"

subsection \<open>buildAuthUrl\<close>

text \<open>
  \<open>URLSearchParams.prototype.toString\<close>: the \<open>application/x-www-form-urlencoded\<close>
  serializer. A space becomes \<open>+\<close>; letters, digits and \<open>* - . _\<close> stay; every other
  byte is written \<open>%XX\<close> with upper-case hexadecimal digits.
\<close>

definition hex_upper :: "nat \<Rightarrow> char" where
  "hex_upper d = (if d < 10 then char_of (48 + d) else char_of (55 + d))"

definition form_safe :: "char \<Rightarrow> bool" where
  "form_safe c =
     (c = CHR ''*'' \<or> c = CHR ''-'' \<or> c = CHR ''.'' \<or> c = CHR ''_'' \<or>
      char_between CHR ''0'' CHR ''9'' c \<or>
      char_between CHR ''A'' CHR ''Z'' c \<or>
      char_between CHR ''a'' CHR ''z'' c)"

definition form_encode_char :: "char \<Rightarrow> string" where
  "form_encode_char c =
     (if c = CHR '' '' then ''+''
      else if form_safe c then [c]
      else [CHR ''%'', hex_upper (of_char c div 16), hex_upper (of_char c mod 16)])"

definition form_encode :: "string \<Rightarrow> string" where
  "form_encode s = concat (map form_encode_char s)"

definition URLSearchParams_toString :: "(string \<times> string) list \<Rightarrow> string" where
  "URLSearchParams_toString params =
     join ''&'' (map (\<lambda>(name, v). form_encode name @ ''='' @ form_encode v) params)"

text \<open>
  \<open>clientId\<close> is what \<open>httpClient.getOAuthClient()\<close> gives; that module is not part of
  the sources, so the value is a parameter.
\<close>

definition buildAuthUrl :: "string \<Rightarrow> string \<Rightarrow> string \<Rightarrow> string" where
  "buildAuthUrl clientId state redirectUri =
     (let scope =
            join '' ''
              [''https://www.googleapis.com/auth/cloud-platform'',
               ''https://www.googleapis.com/auth/userinfo.email'',
               ''https://www.googleapis.com/auth/userinfo.profile'',
               ''https://www.googleapis.com/auth/cclog'',
               ''https://www.googleapis.com/auth/experimentsandconfigs''];
          params =
            [(''access_type'', ''offline''),
             (''scope'', scope),
             (''state'', state),
             (''prompt'', ''consent''),
             (''response_type'', ''code''),
             (''client_id'', clientId),
             (''redirect_uri'', redirectUri)]
      in ''https://accounts.google.com/o/oauth2/v2/auth?'' @ URLSearchParams_toString params)"

text \<open>
  The reading side, which the module does not contain: how the receiver of the URL
  parses an \<open>application/x-www-form-urlencoded\<close> query string. The string is split
  at every \<open>&\<close>, empty parts are dropped, each part is split at its first \<open>=\<close>,
  and in the name and the value a \<open>+\<close> is read as a space and \<open>%XX\<close>, with two
  hexadecimal digits, as the byte with that code. It serves to say which parameters a
  URL carries.
\<close>

fun split_on :: "char \<Rightarrow> string \<Rightarrow> string list" where
  "split_on sep [] = [[]]"
| "split_on sep (c # cs) =
     (if c = sep then [] # split_on sep cs
      else (case split_on sep cs of [] \<Rightarrow> [[c]] | p # ps \<Rightarrow> (c # p) # ps))"

definition is_hex :: "char \<Rightarrow> bool" where
  "is_hex c =
     (char_between CHR ''0'' CHR ''9'' c \<or> char_between CHR ''A'' CHR ''F'' c \<or>
      char_between CHR ''a'' CHR ''f'' c)"

definition hex_value :: "char \<Rightarrow> nat" where
  "hex_value c =
     (if char_between CHR ''0'' CHR ''9'' c then of_char c - 48
      else if char_between CHR ''A'' CHR ''F'' c then of_char c - 55
      else if char_between CHR ''a'' CHR ''f'' c then of_char c - 87
      else 0)"

fun form_decode :: "string \<Rightarrow> string" where
  "form_decode [] = []"
| "form_decode [c] = (if c = CHR ''+'' then '' '' else [c])"
| "form_decode [c, d] = (if c = CHR ''+'' then CHR '' '' # form_decode [d] else c # form_decode [d])"
| "form_decode (c # h # l # cs) =
     (if c = CHR ''+'' then CHR '' '' # form_decode (h # l # cs)
      else if c = CHR ''%'' \<and> is_hex h \<and> is_hex l then
        char_of (16 * hex_value h + hex_value l) # form_decode cs
      else c # form_decode (h # l # cs))"

definition parse_form_urlencoded :: "string \<Rightarrow> (string \<times> string) list" where
  "parse_form_urlencoded q =
     map (\<lambda>part. (form_decode (takeWhile (\<lambda>c. c \<noteq> CHR ''='') part),
                   form_decode (drop 1 (dropWhile (\<lambda>c. c \<noteq> CHR ''='') part))))
       (filter (\<lambda>part. part \<noteq> []) (split_on CHR ''&'' q))"

subsection \<open>renderOAuthResultPage\<close>

text \<open>
  \<open>JSON.stringify\<close> on an object whose properties are strings and booleans. In a
  string the quote and the backslash are escaped with a backslash, the control
  characters are written \<open>\b \t \n \f \r\<close> or \<open>\u00XX\<close> with lower-case digits, and
  every other byte is kept.
\<close>

datatype json = Json_string string | Json_boolean bool

definition hex_lower :: "nat \<Rightarrow> char" where
  "hex_lower d = (if d < 10 then char_of (48 + d) else char_of (87 + d))"

definition json_escape_char :: "char \<Rightarrow> string" where
  "json_escape_char c =
     (if c = CHR 0x08 then [CHR 0x5C, CHR ''b'']
      else if c = CHR 0x09 then [CHR 0x5C, CHR ''t'']
      else if c = CHR 0x0A then [CHR 0x5C, CHR ''n'']
      else if c = CHR 0x0C then [CHR 0x5C, CHR ''f'']
      else if c = CHR 0x0D then [CHR 0x5C, CHR ''r'']
      else if c = CHR 0x22 then [CHR 0x5C, CHR 0x22]
      else if c = CHR 0x5C then [CHR 0x5C, CHR 0x5C]
      else if (of_char c :: nat) < 32 then
        [CHR 0x5C, CHR ''u'', CHR ''0'', CHR ''0'',
         hex_lower (of_char c div 16), hex_lower (of_char c mod 16)]
      else [c])"

definition JSON_quote :: "string \<Rightarrow> string" where
  "JSON_quote s = [CHR 0x22] @ concat (map json_escape_char s) @ [CHR 0x22]"

fun JSON_stringify_value :: "json \<Rightarrow> string" where
  "JSON_stringify_value (Json_string s) = JSON_quote s"
| "JSON_stringify_value (Json_boolean b) = (if b then ''true'' else ''false'')"

definition JSON_stringify :: "(string \<times> json) list \<Rightarrow> string" where
  "JSON_stringify props =
     ''{'' @ join '','' (map (\<lambda>(name, v). JSON_quote name @ '':'' @ JSON_stringify_value v) props)
       @ ''}''"

text \<open>
  The text of the template literal between its substitutions, line by line. The
  characters outside ASCII (the Chinese phrases of the page and of the messages) are
  given by their UTF-8 bytes.
\<close>

definition page_part1 :: string where
  \<open>page_part1 =
     concat
      [''<!DOCTYPE html>\<newline>'',
       ''<html lang="zh-CN">\<newline>'',
       ''<head>\<newline>'',
       ''  <meta charset="UTF-8" />\<newline>'',
       ''  <meta name="viewport" content="width=device-width, initial-scale=1.0" />\<newline>'',
       ''  <title>'']\<close>

definition page_part2 :: string where
  \<open>page_part2 =
     concat
      [''</title>\<newline>'',
       ''  <style>\<newline>'',
       ''    body { font-family: -apple-system, BlinkMacSystemFont, "Segoe UI", Roboto, Helvetica, Arial, sans-serif; background: #0b1220; color: #e6edf3; margin: 0; min-height: 100vh; display: flex; align-items: center; justify-content: center; }\<newline>'',
       ''    .card { width: min(520px, 92vw); background: #111a2e; border: 1px solid rgba(255,255,255,0.08); border-radius: 16px; padding: 28px; box-shadow: 0 16px 40px rgba(0,0,0,0.5); }\<newline>'',
       ''    .badge { display: inline-flex; align-items: center; gap: 8px; padding: 6px 12px; border-radius: 999px; font-weight: 600; font-size: 13px; letter-spacing: .2px; }\<newline>'',
       ''    .badge.success { background: rgba(34, 197, 94, 0.15); color: #4ade80; border: 1px solid rgba(34, 197, 94, 0.35); }\<newline>'',
       ''    .badge.error { background: rgba(239, 68, 68, 0.12); color: #f87171; border: 1px solid rgba(239, 68, 68, 0.35); }\<newline>'',
       ''    h1 { margin: 14px 0 10px; font-size: 22px; }\<newline>'',
       ''    p { margin: 0 0 14px; line-height: 1.6; color: rgba(230,237,243,0.85); }\<newline>'',
       ''    .hint { font-size: 13px; color: rgba(230,237,243,0.6); }\<newline>'',
       ''    .btn { margin-top: 18px; width: 100%; padding: 12px 14px; border-radius: 10px; border: 1px solid rgba(255,255,255,0.12); background: rgba(255,255,255,0.06); color: #e6edf3; cursor: pointer; font-size: 14px; }\<newline>'',
       ''    .btn:hover { background: rgba(255,255,255,0.10); }\<newline>'',
       ''  </style>\<newline>'',
       ''</head>\<newline>'',
       ''<body>\<newline>'',
       ''  <div class="card">\<newline>'',
       ''    <div class="badge '']\<close>

definition page_part3 :: string where
  \<open>page_part3 =
     concat
      [''">OAuth '']\<close>

definition page_part4 :: string where
  \<open>page_part4 =
     concat
      [''</div>\<newline>'',
       ''    <h1>'']\<close>

definition page_part5 :: string where
  \<open>page_part5 =
     concat
      [''</h1>\<newline>'',
       ''    <p>'']\<close>

definition page_part6 :: string where
  \<open>page_part6 =
     concat
      [''</p>\<newline>'',
       ''    <p class="hint" id="countdown">'' @ [CHR 0xE7, CHR 0xAA, CHR 0x97, CHR 0xE5, CHR 0x8F, CHR 0xA3, CHR 0xE5, CHR 0xB0, CHR 0x86, CHR 0xE5, CHR 0x9C, CHR 0xA8] @ '' 3 '' @ [CHR 0xE7, CHR 0xA7, CHR 0x92, CHR 0xE5, CHR 0x90, CHR 0x8E, CHR 0xE8, CHR 0x87, CHR 0xAA, CHR 0xE5, CHR 0x8A, CHR 0xA8, CHR 0xE5, CHR 0x85, CHR 0xB3, CHR 0xE9, CHR 0x97, CHR 0xAD] @ ''</p>\<newline>'',
       ''    <button class="btn" onclick="closeWindow()">'' @ [CHR 0xE5, CHR 0x85, CHR 0xB3, CHR 0xE9, CHR 0x97, CHR 0xAD, CHR 0xE7, CHR 0xAA, CHR 0x97, CHR 0xE5, CHR 0x8F, CHR 0xA3] @ ''</button>\<newline>'',
       ''  </div>\<newline>'',
       ''  <script>\<newline>'',
       ''    const payload = '']\<close>

definition page_part7 :: string where
  \<open>page_part7 =
     concat
      ['';\<newline>'',
       ''\<newline>'',
       ''    try {\<newline>'',
       ''      if (window.opener && !window.opener.closed) {\<newline>'',
       ''        window.opener.postMessage(payload, window.location.origin);\<newline>'',
       ''      }\<newline>'',
       ''    } catch (e) {}\<newline>'',
       ''\<newline>'',
       ''    function closeWindow() {\<newline>'',
       ''      window.close();\<newline>'',
       ''      setTimeout(() => {\<newline>'',
       ''        if (!window.closed) {\<newline>'',
       ''          document.getElementById('countdown').textContent = '' @ [CHR 0x27] @ [CHR 0xE8, CHR 0xAF, CHR 0xB7, CHR 0xE6, CHR 0x89, CHR 0x8B, CHR 0xE5, CHR 0x8A, CHR 0xA8, CHR 0xE5, CHR 0x85, CHR 0xB3, CHR 0xE9, CHR 0x97, CHR 0xAD, CHR 0xE6, CHR 0xAD, CHR 0xA4, CHR 0xE7, CHR 0xAA, CHR 0x97, CHR 0xE5, CHR 0x8F, CHR 0xA3] @ [CHR 0x27] @ '';\<newline>'',
       ''        }\<newline>'',
       ''      }, 100);\<newline>'',
       ''    }\<newline>'',
       ''\<newline>'',
       ''    let t = 3;\<newline>'',
       ''    const el = document.getElementById('countdown');\<newline>'',
       ''    const timer = setInterval(() => {\<newline>'',
       ''      t -= 1;\<newline>'',
       ''      if (t > 0) {\<newline>'',
       ''        el.textContent = '' @ [CHR 0x27] @ [CHR 0xE7, CHR 0xAA, CHR 0x97, CHR 0xE5, CHR 0x8F, CHR 0xA3, CHR 0xE5, CHR 0xB0, CHR 0x86, CHR 0xE5, CHR 0x9C, CHR 0xA8] @ '' ' + t + ' '' @ [CHR 0xE7, CHR 0xA7, CHR 0x92, CHR 0xE5, CHR 0x90, CHR 0x8E, CHR 0xE8, CHR 0x87, CHR 0xAA, CHR 0xE5, CHR 0x8A, CHR 0xA8, CHR 0xE5, CHR 0x85, CHR 0xB3, CHR 0xE9, CHR 0x97, CHR 0xAD] @ [CHR 0x27] @ '';\<newline>'',
       ''      } else {\<newline>'',
       ''        clearInterval(timer);\<newline>'',
       ''        closeWindow();\<newline>'',
       ''      }\<newline>'',
       ''    }, 1000);\<newline>'',
       ''  </script>\<newline>'',
       ''</body>\<newline>'',
       ''</html>'']\<close>

definition title_success :: string where
  "title_success =
     ''OAuth '' @ [CHR 0xE6, CHR 0x8E, CHR 0x88, CHR 0xE6, CHR 0x9D, CHR 0x83,
                  CHR 0xE6, CHR 0x88, CHR 0x90, CHR 0xE5, CHR 0x8A, CHR 0x9F]"

definition title_failure :: string where
  "title_failure =
     ''OAuth '' @ [CHR 0xE6, CHR 0x8E, CHR 0x88, CHR 0xE6, CHR 0x9D, CHR 0x83,
                  CHR 0xE5, CHR 0xA4, CHR 0xB1, CHR 0xE8, CHR 0xB4, CHR 0xA5]"

definition text_success :: string where
  "text_success = [CHR 0xE6, CHR 0x88, CHR 0x90, CHR 0xE5, CHR 0x8A, CHR 0x9F]"

definition text_failure :: string where
  "text_failure = [CHR 0xE5, CHR 0xA4, CHR 0xB1, CHR 0xE8, CHR 0xB4, CHR 0xA5]"

definition renderOAuthResultPage :: "bool \<Rightarrow> string option \<Rightarrow> string option \<Rightarrow> string" where
  "renderOAuthResultPage success message state =
     (let safeMessage = escapeHtml message;
          payload =
            [(''type'', Json_string ''oauth_result''),
             (''state'', Json_string (or_else state [])),
             (''success'', Json_boolean success),
             (''message'', Json_string (or_else message []))];
          payloadJson = replaceAll ''<'' [CHR 0x5C, CHR ''u'', CHR ''0'', CHR ''0'', CHR ''3'', CHR ''c'']
                          (JSON_stringify payload);
          title = (if success then title_success else title_failure);
          statusClass = (if success then ''success'' else ''error'');
          statusText = (if success then text_success else text_failure)
      in page_part1 @ title @ page_part2 @ statusClass @ page_part3 @ statusText @ page_part4
           @ title @ page_part5 @ safeMessage @ page_part6 @ payloadJson @ page_part7)"

subsection \<open>Sessions and the store\<close>

definition SESSION_TTL_MS :: int where
  "SESSION_TTL_MS = 30 * 60 * 1000"

record oauth_result =
  success :: bool
  message :: string

record session =
  createdAt :: int
  redirectUri :: string
  result :: "oauth_result option"

text \<open>
  A value of the Map: a session object, or a falsy value (which the module never stores,
  but which \<open>cleanupExpiredSessions\<close> and the lookups test for with \<open>!session\<close>).
\<close>

datatype entry = Falsy | Session session

type_synonym store = "string \<rightharpoonup> entry"

text \<open>
  The test of \<open>cleanupExpiredSessions\<close>:
  \<open>!session || !session.createdAt || now - session.createdAt > SESSION_TTL_MS\<close>.
  A number is falsy when it is 0.
\<close>

fun evicted :: "int \<Rightarrow> entry \<Rightarrow> bool" where
  "evicted now Falsy = True"
| "evicted now (Session s) = (createdAt s = 0 \<or> now - createdAt s > SESSION_TTL_MS)"

text \<open>The loop deletes the entries that pass the test and keeps the others.\<close>

definition cleanupExpiredSessions :: "int \<Rightarrow> store \<Rightarrow> store" where
  "cleanupExpiredSessions now sessions =
     (\<lambda>state. case sessions state of
        None \<Rightarrow> None
      | Some e \<Rightarrow> if evicted now e then None else Some e)"

text \<open>
  \<open>sessions.get(state)\<close> as the callers use it: they only test the value with
  \<open>!session\<close>, so a missing key and a falsy value are both \<open>None\<close>.
\<close>

definition sessions_get :: "store \<Rightarrow> string \<Rightarrow> session option" where
  "sessions_get sessions state =
     (case sessions state of Some (Session s) \<Rightarrow> Some s | _ \<Rightarrow> None)"

definition sessions_set :: "store \<Rightarrow> string \<Rightarrow> session \<Rightarrow> store" where
  "sessions_set sessions state s = sessions(state \<mapsto> Session s)"

subsection \<open>getOAuthStatus\<close>

datatype status_reply =
    Status_expired string
  | Status_completed oauth_result
  | Status_pending

definition getOAuthStatus :: "int \<Rightarrow> string \<Rightarrow> store \<Rightarrow> status_reply \<times> store" where
  "getOAuthStatus now state sessions =
     (let sessions1 = cleanupExpiredSessions now sessions in
      case sessions_get sessions1 state of
        None \<Rightarrow> (Status_expired ''OAuth state not found or expired'', sessions1)
      | Some s \<Rightarrow>
          (case result s of
             Some r \<Rightarrow> (Status_completed r, sessions1)
           | None \<Rightarrow> (Status_pending, sessions1)))"

subsection \<open>Thrown values and the collaborators\<close>

text \<open>The two values that have no properties.\<close>

datatype nullish = Undefined | Null

fun nullish_text :: "nullish \<Rightarrow> string" where
  "nullish_text Undefined = ''undefined''"
| "nullish_text Null = ''null''"

text \<open>
  What a \<open>catch (e)\<close> can receive, as far as \<open>e.message || String(e)\<close> tells the values
  apart:
  \<^item> an error object with its \<open>name\<close> and its \<open>message\<close>;
  \<^item> another value, not \<open>null\<close> or \<open>undefined\<close>, that has no truthy \<open>message\<close>, given by
    what \<open>String(e)\<close> makes of it;
  \<^item> \<open>undefined\<close> or \<open>null\<close>;
  \<^item> a value for which evaluating \<open>e.message || String(e)\<close> throws in its turn, given
    by what is thrown: an object with no \<open>message\<close> and no way to be made a string, such
    as \<open>Object.create(null)\<close>, or one whose \<open>message\<close> is a getter that throws.
\<close>

datatype thrown =
    Error_object string string
  | Thrown_value string
  | Thrown_nullish nullish
  | Thrown_unprintable thrown

definition TypeError :: "string \<Rightarrow> thrown" where
  "TypeError msg = Error_object ''TypeError'' msg"

text \<open>\<open>Error.prototype.toString\<close>, which is what \<open>String(e)\<close> calls on an error object.\<close>

definition Error_toString :: "string \<Rightarrow> string \<Rightarrow> string" where
  "Error_toString name msg =
     (if name = [] then msg else if msg = [] then name else name @ '': '' @ msg)"

text \<open>
  \<open>e.message || String(e)\<close>. Reading a property of \<open>undefined\<close> or \<open>null\<close> throws a
  \<open>TypeError\<close> (the text of its message is the engine's).
\<close>

fun message_of_thrown :: "thrown \<Rightarrow> thrown + string" where
  "message_of_thrown (Error_object name msg) =
     Inr (if msg \<noteq> [] then msg else Error_toString name msg)"
| "message_of_thrown (Thrown_value s) = Inr s"
| "message_of_thrown (Thrown_nullish n) =
     Inl (TypeError (''Cannot read properties of '' @ nullish_text n @ '' (reading 'message')''))"
| "message_of_thrown (Thrown_unprintable t) = Inl t"

text \<open>
  The collaborators are not part of the sources. \<open>httpClient.exchangeCodeForToken\<close> is
  a parameter: from the code, the redirect URI and the rate limiter handle it gives the
  credentials or throws. \<open>authManager\<close> carries the handle and \<open>addAccount\<close>, which
  returns or throws; the caller may also pass \<open>undefined\<close> or \<open>null\<close> for it.
\<close>

record ('l, 'c) auth_manager =
  apiLimiter :: 'l
  addAccount :: "'c \<Rightarrow> thrown option"

type_synonym ('l, 'c) exchange = "string \<Rightarrow> string \<Rightarrow> 'l \<Rightarrow> thrown + 'c"

text \<open>
  The state a callback works on: the store, and the log of the calls made to
  \<open>exchangeCodeForToken\<close>, each with the code and the redirect URI it was given.
\<close>

record world =
  sessions :: store
  exchange_calls :: "(string \<times> string) list"

text \<open>
  A call \<open>httpClient.exchangeCodeForToken(code, uri, limiter)\<close>: the collaborator is
  applied to the arguments, and the log takes the same arguments.
\<close>

definition call_exchange ::
  "('l, 'c) exchange \<Rightarrow> string \<Rightarrow> string \<Rightarrow> 'l \<Rightarrow> world \<Rightarrow> (thrown + 'c) \<times> world" where
  "call_exchange exchangeCodeForToken code uri limiter w =
     (exchangeCodeForToken code uri limiter,
      w\<lparr>exchange_calls := exchange_calls w @ [(code, uri)]\<rparr>)"

subsection \<open>completeOAuthCallback\<close>

definition msg_auth_failed :: string where
  "msg_auth_failed =
     [CHR 0xE6, CHR 0x8E, CHR 0x88, CHR 0xE6, CHR 0x9D, CHR 0x83,
      CHR 0xE5, CHR 0xA4, CHR 0xB1, CHR 0xE8, CHR 0xB4, CHR 0xA5] @ '': ''"

definition msg_auth_ok :: string where
  "msg_auth_ok =
     [CHR 0xE6, CHR 0x8E, CHR 0x88, CHR 0xE6, CHR 0x9D, CHR 0x83,
      CHR 0xE6, CHR 0x88, CHR 0x90, CHR 0xE5, CHR 0x8A, CHR 0x9F]"

definition msg_token_failed :: string where
  "msg_token_failed =
     [CHR 0xE8, CHR 0x8E, CHR 0xB7, CHR 0xE5, CHR 0x8F, CHR 0x96] @ '' token '' @
     [CHR 0xE5, CHR 0xA4, CHR 0xB1, CHR 0xE8, CHR 0xB4, CHR 0xA5] @ '': ''"

text \<open>\<open>session.result = result; sessions.set(state, session); return result\<close>.\<close>

definition record_result ::
  "world \<Rightarrow> string \<Rightarrow> session \<Rightarrow> oauth_result \<Rightarrow> (thrown + oauth_result) \<times> world" where
  "record_result w state s r =
     (Inr r, w\<lparr>sessions := sessions_set (sessions w) state (s\<lparr>result := Some r\<rparr>)\<rparr>)"

text \<open>
  The body of the \<open>try\<close>. The arguments of the call are evaluated first, so a missing
  \<open>authManager\<close> throws before \<open>exchangeCodeForToken\<close> is called. The result is what
  was thrown, if anything.
\<close>

definition try_exchange ::
  "('l, 'c) exchange \<Rightarrow> string \<Rightarrow> session \<Rightarrow> nullish + ('l, 'c) auth_manager \<Rightarrow> world
     \<Rightarrow> thrown option \<times> world" where
  "try_exchange exchangeCodeForToken code s authManager w =
     (case authManager of
        Inl n \<Rightarrow>
          (Some (TypeError (''Cannot read properties of '' @ nullish_text n @
                            '' (reading 'apiLimiter')'')), w)
      | Inr am \<Rightarrow>
          (case call_exchange exchangeCodeForToken code (redirectUri s) (apiLimiter am) w of
             (Inl e, w') \<Rightarrow> (Some e, w')
           | (Inr creds, w') \<Rightarrow> (addAccount am creds, w')))"

text \<open>
  The result is \<open>Inr\<close> of what the function returns (the promise is fulfilled) or
  \<open>Inl\<close> of what it throws (the promise is rejected).
\<close>

definition completeOAuthCallback ::
  "int \<Rightarrow> ('l, 'c) exchange \<Rightarrow> string option \<Rightarrow> string option \<Rightarrow> string option
     \<Rightarrow> string option \<Rightarrow> nullish + ('l, 'c) auth_manager \<Rightarrow> world
     \<Rightarrow> (thrown + oauth_result) \<times> world" where
  "completeOAuthCallback now exchangeCodeForToken state code error errorDescription authManager w =
     (let w1 = w\<lparr>sessions := cleanupExpiredSessions now (sessions w)\<rparr> in
      case truthy state of
        None \<Rightarrow> (Inr \<lparr>success = False, message = ''Missing state''\<rparr>, w1)
      | Some st \<Rightarrow>
          (case sessions_get (sessions w1) st of
             None \<Rightarrow>
               (Inr \<lparr>success = False, message = ''OAuth state not found or expired''\<rparr>, w1)
           | Some s \<Rightarrow>
               (case truthy error of
                  Some err \<Rightarrow>
                    record_result w1 st s
                      \<lparr>success = False,
                       message = msg_auth_failed @ or_else errorDescription err\<rparr>
                | None \<Rightarrow>
                    (case truthy code of
                       None \<Rightarrow>
                         record_result w1 st s \<lparr>success = False, message = ''Missing code''\<rparr>
                     | Some c \<Rightarrow>
                         (case try_exchange exchangeCodeForToken c s authManager w1 of
                            (None, w2) \<Rightarrow>
                              record_result w2 st s \<lparr>success = True, message = msg_auth_ok\<rparr>
                          | (Some e, w2) \<Rightarrow>
                              (case message_of_thrown e of
                                 Inl e' \<Rightarrow> (Inl e', w2)
                               | Inr m \<Rightarrow>
                                   record_result w2 st s
                                     \<lparr>success = False,
                                      message = msg_token_failed @ m\<rparr>))))))"

subsection \<open>startOAuthSession\<close>

record start_reply =
  state :: string
  auth_url :: string
  redirect_uri :: string
  expires_in_ms :: int

text \<open>
  The clock is read twice, by \<open>cleanupExpiredSessions\<close> and for \<open>createdAt\<close>;
  \<open>fresh\<close> is the token that \<open>createState()\<close> draws. The \<open>req\<close> argument is not used.
\<close>

definition startOAuthSession ::
  "int \<Rightarrow> int \<Rightarrow> string \<Rightarrow> string \<Rightarrow> jsval \<Rightarrow> store \<Rightarrow> start_reply \<times> store" where
  "startOAuthSession now now' fresh clientId config store0 =
     (let store1 = cleanupExpiredSessions now store0;
          port = resolveServerPort config;
          uri = ''http://localhost:'' @ Number_toString port @ ''/oauth-callback'';
          authUrl = buildAuthUrl clientId fresh uri
      in (\<lparr>state = fresh, auth_url = authUrl, redirect_uri = uri,
           expires_in_ms = SESSION_TTL_MS\<rparr>,
          sessions_set store1 fresh \<lparr>createdAt = now', redirectUri = uri, result = None\<rparr>))"

subsection \<open>Sequences of requests\<close>

text \<open>
  The three operations the module exports that touch the store, each with the clock
  readings and the collaborators of that request.
\<close>

datatype ('l, 'c) request =
    is_Start: Start int int string string jsval
  | is_Status: Status int string
  | is_Callback: Callback int "('l, 'c) exchange" "string option" "string option"
      "string option" "string option" "nullish + ('l, 'c) auth_manager"

fun step :: "('l, 'c) request \<Rightarrow> world \<Rightarrow> world" where
  "step (Start now now' fresh clientId config) w =
     w\<lparr>sessions := snd (startOAuthSession now now' fresh clientId config (sessions w))\<rparr>"
| "step (Status now st) w = w\<lparr>sessions := snd (getOAuthStatus now st (sessions w))\<rparr>"
| "step (Callback now ex st code err descr am) w =
     snd (completeOAuthCallback now ex st code err descr am w)"

fun run :: "('l, 'c) request list \<Rightarrow> world \<Rightarrow> world" where
  "run [] w = w"
| "run (r # rs) w = run rs (step r w)"

text \<open>The reading of the clock that the eviction of a request uses.\<close>

fun eviction_time :: "('l, 'c) request \<Rightarrow> int" where
  "eviction_time (Start now now' fresh clientId config) = now"
| "eviction_time (Status now st) = now"
| "eviction_time (Callback now ex st code err descr am) = now"

text \<open>A request mints the token \<open>st\<close> when it starts a session and draws \<open>st\<close>.\<close>

fun mints :: "string \<Rightarrow> ('l, 'c) request \<Rightarrow> bool" where
  "mints st (Start now now' fresh clientId config) = (fresh = st)"
| "mints st _ = False"

text \<open>A request is a callback for \<open>st\<close> when it is a callback whose state is \<open>st\<close>.\<close>

fun callback_for :: "string \<Rightarrow> ('l, 'c) request \<Rightarrow> bool" where
  "callback_for st (Callback now ex sarg code err descr am) = (sarg = Some st)"
| "callback_for st _ = False"

section \<open>Properties\<close>

declare decimal.simps [simp del] dbl_exponent.simps [simp del] strip_prefixes.simps [simp del]

subsection \<open>The store after an eviction\<close>

lemma sessions_get_cleanup:
  "sessions_get (cleanupExpiredSessions now store0) k = Some s \<longleftrightarrow>
     store0 k = Some (Session s) \<and> createdAt s \<noteq> 0 \<and> now - createdAt s \<le> SESSION_TTL_MS"
  by (auto simp: sessions_get_def cleanupExpiredSessions_def split: option.splits entry.splits)

lemma cleanup_Some:
  "cleanupExpiredSessions now store0 k = Some e \<longleftrightarrow>
     (\<exists>s. e = Session s \<and> store0 k = Some (Session s) \<and> createdAt s \<noteq> 0
        \<and> now - createdAt s \<le> SESSION_TTL_MS)"
  by (cases e) (auto simp: cleanupExpiredSessions_def split: option.splits)

lemma sessions_get_Some: "sessions_get store0 k = Some s \<longleftrightarrow> store0 k = Some (Session s)"
  by (auto simp: sessions_get_def split: option.splits entry.splits)

lemma evicted_mono: "evicted now e \<Longrightarrow> now \<le> now' \<Longrightarrow> evicted now' e"
  by (cases e) auto

lemma cleanup_evicted:
  "store0 k = None \<or> (\<exists>e. store0 k = Some e \<and> evicted now e) \<Longrightarrow> now \<le> now' \<Longrightarrow>
   cleanupExpiredSessions now' store0 k = None"
  by (auto simp: cleanupExpiredSessions_def dest: evicted_mono)

lemma truthy_Some [simp]: "s \<noteq> [] \<Longrightarrow> truthy (Some s) = Some s"
  by (simp add: truthy_def)

lemma truthy_None [simp]: "truthy None = None" "truthy (Some []) = None"
  by (simp_all add: truthy_def)

lemma truthy_eq_Some: "truthy v = Some s \<longleftrightarrow> v = Some s \<and> s \<noteq> []"
  by (auto simp: truthy_def split: option.splits)

lemma or_else_Some [simp]: "s \<noteq> [] \<Longrightarrow> or_else (Some s) b = s"
  by (simp add: or_else_def)

subsection \<open>The callback, branch by branch\<close>

lemma try_exchange_calls:
  "try_exchange ex c s am w = (t, w') \<Longrightarrow>
     sessions w' = sessions w \<and>
     (case am of Inl n \<Rightarrow> exchange_calls w' = exchange_calls w
      | Inr a \<Rightarrow> exchange_calls w' = exchange_calls w @ [(c, redirectUri s)])"
  by (auto simp: try_exchange_def call_exchange_def split: sum.splits)

lemma callback_no_state:
  "truthy sarg = None \<Longrightarrow>
   completeOAuthCallback now ex sarg code err descr am w =
     (Inr \<lparr>success = False, message = ''Missing state''\<rparr>,
      w\<lparr>sessions := cleanupExpiredSessions now (sessions w)\<rparr>)"
  by (simp add: completeOAuthCallback_def)

lemma callback_no_session:
  "st \<noteq> [] \<Longrightarrow> sessions_get (cleanupExpiredSessions now (sessions w)) st = None \<Longrightarrow>
   completeOAuthCallback now ex (Some st) code err descr am w =
     (Inr \<lparr>success = False, message = ''OAuth state not found or expired''\<rparr>,
      w\<lparr>sessions := cleanupExpiredSessions now (sessions w)\<rparr>)"
  by (simp add: completeOAuthCallback_def)

lemma callback_found:
  assumes "st \<noteq> []" and "sessions_get (cleanupExpiredSessions now (sessions w)) st = Some s"
  shows "completeOAuthCallback now ex (Some st) code err descr am w =
     (let w1 = w\<lparr>sessions := cleanupExpiredSessions now (sessions w)\<rparr> in
      case truthy err of
        Some e \<Rightarrow>
          record_result w1 st s \<lparr>success = False, message = msg_auth_failed @ or_else descr e\<rparr>
      | None \<Rightarrow>
          (case truthy code of
             None \<Rightarrow> record_result w1 st s \<lparr>success = False, message = ''Missing code''\<rparr>
           | Some c \<Rightarrow>
               (case try_exchange ex c s am w1 of
                  (None, w2) \<Rightarrow> record_result w2 st s \<lparr>success = True, message = msg_auth_ok\<rparr>
                | (Some e, w2) \<Rightarrow>
                    (case message_of_thrown e of
                       Inl e' \<Rightarrow> (Inl e', w2)
                     | Inr m \<Rightarrow>
                         record_result w2 st s
                           \<lparr>success = False, message = msg_token_failed @ m\<rparr>))))"
  using assms by (simp add: completeOAuthCallback_def Let_def)

lemma callback_found_store:
  assumes "st \<noteq> []" and "sessions_get (cleanupExpiredSessions now (sessions w)) st = Some s"
    and "completeOAuthCallback now ex (Some st) code err descr am w = (res, w')"
  shows "(\<exists>e. res = Inl e \<and> sessions w' = cleanupExpiredSessions now (sessions w)) \<or>
         (\<exists>r. res = Inr r \<and>
            sessions w' =
              (cleanupExpiredSessions now (sessions w))(st \<mapsto> Session (s\<lparr>result := Some r\<rparr>)))"
  using assms(3) unfolding callback_found [OF assms(1,2)]
  by (auto simp: Let_def record_result_def sessions_set_def
      split: option.splits sum.splits prod.splits if_splits dest!: try_exchange_calls)

lemma callback_found_exchange:
  assumes "st \<noteq> []" and "sessions_get (cleanupExpiredSessions now (sessions w)) st = Some s"
    and "completeOAuthCallback now ex (Some st) code err descr am w = (res, w')"
  shows "exchange_calls w' = exchange_calls w \<or>
         (\<exists>c. code = Some c \<and> c \<noteq> [] \<and>
            exchange_calls w' = exchange_calls w @ [(c, redirectUri s)])"
  using assms(3) unfolding callback_found [OF assms(1,2)]
  by (auto simp: Let_def record_result_def truthy_eq_Some
      split: option.splits sum.splits prod.splits dest!: try_exchange_calls)

lemma callback_store:
  assumes "completeOAuthCallback now ex sarg code err descr am w = (res, w')"
  shows "sessions w' = cleanupExpiredSessions now (sessions w) \<or>
         (\<exists>st s r. sarg = Some st \<and> st \<noteq> [] \<and> res = Inr r \<and>
            sessions_get (cleanupExpiredSessions now (sessions w)) st = Some s \<and>
            sessions w' =
              (cleanupExpiredSessions now (sessions w))(st \<mapsto> Session (s\<lparr>result := Some r\<rparr>)))"
proof (cases "truthy sarg")
  case None
  with assms show ?thesis by (auto simp: callback_no_state)
next
  case (Some st)
  then have st: "sarg = Some st" "st \<noteq> []"
    by (simp_all add: truthy_eq_Some)
  show ?thesis
  proof (cases "sessions_get (cleanupExpiredSessions now (sessions w)) st")
    case None
    with assms st show ?thesis by (auto simp: callback_no_session)
  next
    case (Some s)
    with assms st callback_found_store [OF st(2) Some, of ex code err descr am res w']
    show ?thesis by auto
  qed
qed

lemma callback_exchange:
  assumes "completeOAuthCallback now ex sarg code err descr am w = (res, w')"
  shows "exchange_calls w' = exchange_calls w \<or>
         (\<exists>st s c. sarg = Some st \<and> st \<noteq> [] \<and> code = Some c \<and> c \<noteq> [] \<and>
            sessions_get (cleanupExpiredSessions now (sessions w)) st = Some s \<and>
            exchange_calls w' = exchange_calls w @ [(c, redirectUri s)])"
proof (cases "truthy sarg")
  case None
  with assms show ?thesis by (auto simp: callback_no_state)
next
  case (Some st)
  then have st: "sarg = Some st" "st \<noteq> []"
    by (simp_all add: truthy_eq_Some)
  show ?thesis
  proof (cases "sessions_get (cleanupExpiredSessions now (sessions w)) st")
    case None
    with assms st show ?thesis by (auto simp: callback_no_session)
  next
    case (Some s)
    with assms st callback_found_exchange [OF st(2) Some, of ex code err descr am res w']
    show ?thesis by auto
  qed
qed

text \<open>
  The callback applies \<open>exchangeCodeForToken\<close> to the redirect URI of the session it
  found and to nothing else: two collaborators that do the same at that URI make the
  same callback.
\<close>

lemma try_exchange_at_redirectUri:
  "\<forall>c l. ex' c (redirectUri s) l = ex c (redirectUri s) l \<Longrightarrow>
   try_exchange ex' c s am w = try_exchange ex c s am w"
  by (simp add: try_exchange_def call_exchange_def split: sum.splits)

lemma callback_at_redirectUri:
  assumes "\<forall>s. sessions_get (cleanupExpiredSessions now (sessions w)) st = Some s \<longrightarrow>
             redirectUri s = uri"
    and "\<forall>c l. ex' c uri l = ex c uri l"
  shows "completeOAuthCallback now ex' (Some st) code err descr am w =
         completeOAuthCallback now ex (Some st) code err descr am w"
proof (cases "st = []")
  case True
  then show ?thesis by (simp add: callback_no_state)
next
  case st: False
  show ?thesis
  proof (cases "sessions_get (cleanupExpiredSessions now (sessions w)) st")
    case None
    with st show ?thesis by (simp add: callback_no_session)
  next
    case (Some s)
    with assms have "\<forall>c l. ex' c (redirectUri s) l = ex c (redirectUri s) l"
      by simp
    then have "try_exchange ex' c s am w1 = try_exchange ex c s am w1" for c w1
      by (rule try_exchange_at_redirectUri)
    then show ?thesis
      unfolding callback_found [OF st Some] by (simp add: Let_def split: option.splits)
  qed
qed

text \<open>
  The callback throws only from within its \<open>catch\<close> block: a collaborator has thrown
  a value, and evaluating \<open>e.message || String(e)\<close> on that value throws in its turn,
  which is the case for \<open>undefined\<close>, for \<open>null\<close>, and for a value that cannot be made a
  string. Whatever else a collaborator throws becomes a result with \<open>success = False\<close>.
\<close>

lemma message_of_thrown_Inl:
  "message_of_thrown t = Inl e \<longleftrightarrow>
     (\<exists>n. t = Thrown_nullish n \<and>
        e = TypeError (''Cannot read properties of '' @ nullish_text n @ '' (reading 'message')'')) \<or>
     t = Thrown_unprintable e"
  by (cases t) auto

lemma callback_throws_only_in_catch:
  assumes "completeOAuthCallback now ex sarg code err descr am w = (Inl e, w')"
  shows "\<exists>a c u t. am = Inr a \<and>
            (ex c u (apiLimiter a) = Inl t \<or>
             (\<exists>creds. ex c u (apiLimiter a) = Inr creds \<and> addAccount a creds = Some t)) \<and>
            message_of_thrown t = Inl e"
proof (cases "truthy sarg")
  case None
  with assms show ?thesis by (simp add: callback_no_state)
next
  case (Some st)
  then have st: "sarg = Some st" "st \<noteq> []"
    by (simp_all add: truthy_eq_Some)
  show ?thesis
  proof (cases "sessions_get (cleanupExpiredSessions now (sessions w)) st")
    case None
    with assms st show ?thesis by (simp add: callback_no_session)
  next
    case (Some s)
    from assms st show ?thesis unfolding st(1) callback_found [OF st(2) Some]
      by (auto simp: Let_def record_result_def try_exchange_def call_exchange_def TypeError_def
          split: option.splits sum.splits prod.splits if_splits)
  qed
qed

subsection \<open>Sequences of requests\<close>

lemma step_exchange_calls:
  "\<exists>calls. exchange_calls (step r w) = exchange_calls w @ calls \<and>
     length calls \<le> (if is_Callback r then 1 else 0)"
proof (cases r)
  case (Callback now ex sarg code err descr am)
  obtain res w' where c: "completeOAuthCallback now ex sarg code err descr am w = (res, w')"
    by (cases "completeOAuthCallback now ex sarg code err descr am w")
  from callback_exchange [OF c] Callback c show ?thesis by auto
qed simp_all

lemma run_exchange_calls:
  "\<exists>calls. exchange_calls (run reqs w) = exchange_calls w @ calls \<and>
     length calls \<le> length (filter is_Callback reqs)"
proof (induction reqs arbitrary: w)
  case Nil
  show ?case by simp
next
  case (Cons r rs)
  obtain c1 where c1: "exchange_calls (step r w) = exchange_calls w @ c1"
      "length c1 \<le> (if is_Callback r then 1 else 0)"
    using step_exchange_calls [of r w] by blast
  obtain c2 where c2: "exchange_calls (run rs (step r w)) = exchange_calls (step r w) @ c2"
      "length c2 \<le> length (filter is_Callback rs)"
    using Cons.IH [of "step r w"] by blast
  have "exchange_calls (run (r # rs) w) = exchange_calls w @ (c1 @ c2)"
    using c1 c2 by simp
  moreover have "length (c1 @ c2) \<le> length (filter is_Callback (r # rs))"
    using c1 c2 by (simp split: if_splits)
  ultimately show ?case by blast
qed

lemma step_keeps_absent:
  assumes "sessions w st = None \<or> (\<exists>e. sessions w st = Some e \<and> evicted now e)"
    and "now \<le> eviction_time r" and "\<not> mints st r"
  shows "sessions (step r w) st = None"
proof (cases r)
  case (Start t t' fresh clientId config)
  with assms show ?thesis
    by (simp add: startOAuthSession_def Let_def sessions_set_def cleanup_evicted)
next
  case (Status t k)
  with assms show ?thesis
    by (simp add: getOAuthStatus_def Let_def cleanup_evicted split: option.splits)
next
  case (Callback t ex sarg code err descr am)
  obtain res w' where c: "completeOAuthCallback t ex sarg code err descr am w = (res, w')"
    by (cases "completeOAuthCallback t ex sarg code err descr am w")
  from assms Callback have "cleanupExpiredSessions t (sessions w) st = None"
    by (simp add: cleanup_evicted)
  with callback_store [OF c] Callback c show ?thesis
    by (auto simp: sessions_get_Some)
qed

lemma run_keeps_absent:
  assumes "sessions w st = None \<or> (\<exists>e. sessions w st = Some e \<and> evicted now e)"
    and "\<forall>r\<in>set reqs. now \<le> eviction_time r \<and> \<not> mints st r"
  shows "sessions (run reqs w) st = None \<or>
         (\<exists>e. sessions (run reqs w) st = Some e \<and> evicted now e)"
  using assms
proof (induction reqs arbitrary: w)
  case Nil
  then show ?case by simp
next
  case (Cons r rs)
  from Cons.prems have "sessions (step r w) st = None"
    by (intro step_keeps_absent [where now = now]) auto
  with Cons.IH [of "step r w"] Cons.prems show ?case by simp
qed

lemma step_keeps_redirectUri:
  assumes "\<forall>s. sessions w st = Some (Session s) \<longrightarrow> redirectUri s = uri"
    and "\<not> mints st r"
  shows "\<forall>s. sessions (step r w) st = Some (Session s) \<longrightarrow> redirectUri s = uri"
proof (cases r)
  case (Start t t' fresh clientId config)
  with assms show ?thesis
    by (auto simp: startOAuthSession_def Let_def sessions_set_def cleanup_Some)
next
  case (Status t k)
  with assms show ?thesis
    by (auto simp: getOAuthStatus_def Let_def cleanup_Some split: option.splits)
next
  case (Callback t ex sarg code err descr am)
  obtain res w' where c: "completeOAuthCallback t ex sarg code err descr am w = (res, w')"
    by (cases "completeOAuthCallback t ex sarg code err descr am w")
  from callback_store [OF c] Callback c assms(1) show ?thesis
    by (auto simp: cleanup_Some sessions_get_cleanup split: if_splits)
qed

lemma run_keeps_redirectUri:
  assumes "\<forall>s. sessions w st = Some (Session s) \<longrightarrow> redirectUri s = uri"
    and "\<forall>r\<in>set reqs. \<not> mints st r"
  shows "\<forall>s. sessions (run reqs w) st = Some (Session s) \<longrightarrow> redirectUri s = uri"
  using assms
proof (induction reqs arbitrary: w)
  case Nil
  then show ?case by simp
next
  case (Cons r rs)
  from Cons.prems
  have "\<forall>s. sessions (step r w) st = Some (Session s) \<longrightarrow> redirectUri s = uri"
    by (intro step_keeps_redirectUri) auto
  with Cons.IH [of "step r w"] Cons.prems show ?case by simp
qed

lemma cleanup_keeps:
  "store0 k = Some (Session s) \<Longrightarrow> createdAt s \<noteq> 0 \<Longrightarrow>
   now - createdAt s \<le> SESSION_TTL_MS \<Longrightarrow>
   cleanupExpiredSessions now store0 k = Some (Session s)"
  by (simp add: cleanupExpiredSessions_def)

lemma step_keeps_session:
  assumes "sessions w st = Some (Session s)" and "createdAt s \<noteq> 0"
    and "eviction_time q - createdAt s \<le> SESSION_TTL_MS"
    and "\<not> mints st q" and "\<not> callback_for st q"
  shows "sessions (step q w) st = Some (Session s)"
proof (cases q)
  case (Start t t' fresh clientId config)
  with assms show ?thesis
    by (simp add: startOAuthSession_def Let_def sessions_set_def cleanup_keeps)
next
  case (Status t k)
  with assms show ?thesis
    by (simp add: getOAuthStatus_def Let_def cleanup_keeps split: option.splits)
next
  case (Callback t ex sarg code err descr am)
  obtain res w' where c: "completeOAuthCallback t ex sarg code err descr am w = (res, w')"
    by (cases "completeOAuthCallback t ex sarg code err descr am w")
  from assms Callback have "cleanupExpiredSessions t (sessions w) st = Some (Session s)"
    by (simp add: cleanup_keeps)
  moreover from assms(5) Callback have "sarg \<noteq> Some st"
    by simp
  ultimately show ?thesis
    using callback_store [OF c] Callback c by (auto split: if_splits)
qed

lemma run_keeps_session:
  assumes "sessions w st = Some (Session s)" and "createdAt s \<noteq> 0"
    and "\<forall>q\<in>set reqs. eviction_time q - createdAt s \<le> SESSION_TTL_MS \<and>
           \<not> mints st q \<and> \<not> callback_for st q"
  shows "sessions (run reqs w) st = Some (Session s)"
  using assms
proof (induction reqs arbitrary: w)
  case Nil
  then show ?case by simp
next
  case (Cons q qs)
  from Cons.prems have "sessions (step q w) st = Some (Session s)"
    by (intro step_keeps_session) auto
  with Cons.IH [of "step q w"] Cons.prems show ?case by simp
qed

lemmas eval_defs =
  completeOAuthCallback_def truthy_def getOAuthStatus_def cleanupExpiredSessions_def sessions_get_def
  sessions_set_def record_result_def try_exchange_def call_exchange_def SESSION_TTL_MS_def
  Let_def or_else_def

subsection \<open>The port\<close>

lemma resolveServerPort_finite: "Number_isFinite (resolveServerPort config)"
  by (simp add: resolveServerPort_def Let_def split: jsval.splits)

text \<open>
  A natural number below \<open>2^53\<close> is a double, and no other natural number rounds to it,
  so it is printed digit by digit.
\<close>

lemma round_double_safe: "n < 2 ^ 53 \<Longrightarrow> round_double n = Some n"
proof -
  assume n: "n < 2 ^ 53"
  then have e: "dbl_exponent n = 0" by (simp add: dbl_exponent.simps)
  have "(2::nat) ^ 53 \<le> 2 ^ 1024" by (rule power_increasing) simp_all
  with n have "\<not> 2 ^ 1024 \<le> n" by linarith
  with e show ?thesis
    unfolding round_double_def Let_def by simp
qed

lemma dbl_exponent_big:
  "2 ^ 53 \<le> n \<Longrightarrow> 0 < dbl_exponent n \<and> 2 ^ 52 \<le> n div 2 ^ dbl_exponent n"
proof (induction n rule: dbl_exponent.induct)
  case (1 n)
  from "1.prems" have e: "dbl_exponent n = Suc (dbl_exponent (n div 2))"
    by (subst dbl_exponent.simps) simp
  have d: "n div 2 ^ Suc k = (n div 2) div 2 ^ k" for k
    by (simp add: div_mult2_eq)
  show ?case
  proof (cases "n div 2 < 2 ^ 53")
    case True
    then have "dbl_exponent (n div 2) = 0" by (simp add: dbl_exponent.simps)
    moreover from "1.prems" have "2 ^ 52 \<le> n div 2" by simp
    ultimately show ?thesis using e by simp
  next
    case False
    with "1.IH" "1.prems" have "2 ^ 52 \<le> (n div 2) div 2 ^ dbl_exponent (n div 2)"
      by simp
    then show ?thesis unfolding e d by simp
  qed
qed

lemma round_double_big:
  assumes "2 ^ 53 \<le> n" and "round_double n = Some v"
  shows "2 ^ 53 \<le> v"
proof -
  define e where "e = dbl_exponent n"
  define q where "q = n div 2 ^ e"
  from dbl_exponent_big [OF assms(1)] have e: "0 < e" and q: "2 ^ 52 \<le> q"
    by (simp_all add: e_def q_def)
  from assms(2) have "v = q * 2 ^ e \<or> v = (q + 1) * 2 ^ e"
    unfolding round_double_def Let_def e_def [symmetric] q_def [symmetric]
    by (auto split: if_splits)
  then have v: "q * 2 ^ e \<le> v" by auto
  from e have "(2::nat) ^ 1 \<le> 2 ^ e"
    by (intro power_increasing) simp_all
  with q have "2 ^ 52 * 2 ^ 1 \<le> q * 2 ^ e"
    by (intro mult_le_mono) simp_all
  with v show ?thesis by simp
qed

lemma round_double_to_safe:
  assumes "round_double w = Some v" and "v < 2 ^ 53"
  shows "w = v"
proof (cases "w < 2 ^ 53")
  case True
  with assms(1) show ?thesis by (simp add: round_double_safe)
next
  case False
  with round_double_big [of w v] assms show ?thesis by simp
qed

lemma shortest_at_safe: "v < 2 ^ 53 \<Longrightarrow> shortest_at v j = Some w \<Longrightarrow> w = v"
  unfolding shortest_at_def Let_def
  by (auto split: if_splits dest: round_double_to_safe)

lemma shortest_from_safe: "v < 2 ^ 53 \<Longrightarrow> shortest_from v j = v"
proof (induction j)
  case 0
  show ?case by simp
next
  case (Suc j)
  then show ?case
    using shortest_at_safe [of v "Suc j"] by (cases "shortest_at v (Suc j)") simp_all
qed

lemma integer_text_safe: "v < 2 ^ 53 \<Longrightarrow> integer_text v = decimal v"
  by (simp add: integer_text_def shortest_decimal_def shortest_from_safe)

lemma Number_of_int_safe: "n < 2 ^ 53 \<Longrightarrow> Number_of_int (int n) = Finite (decimal n)"
  by (simp add: Number_of_int_def round_double_safe integer_text_safe)

lemma Number_of_int_safe_negative:
  "0 < n \<Longrightarrow> n < 2 ^ 53 \<Longrightarrow> Number_of_int (- int n) = Finite (''-'' @ decimal n)"
  by (simp add: Number_of_int_def round_double_safe integer_text_safe)

text \<open>A string that begins with a digit has no white space to skip and no sign.\<close>

lemma digit_code: "is_digit c \<longleftrightarrow> 48 \<le> (of_char c :: nat) \<and> (of_char c :: nat) \<le> 57"
  by (simp add: is_digit_def char_between_def)

lemma whitespace_ends:
  "\<forall>w\<in>set js_whitespace. w \<noteq> [] \<and> \<not> is_digit (hd w) \<and> \<not> is_digit (last w)"
  by (simp add: js_whitespace_def digit_code)

lemma take_hd: "w \<noteq> [] \<Longrightarrow> take (length w) (c # cs) = w \<Longrightarrow> hd w = c"
  by (cases w) auto

lemma digit_not_space:
  assumes "is_digit c"
  shows "List.find (\<lambda>w. w \<noteq> [] \<and> take (length w) (c # cs) = w) js_whitespace = None"
    and "List.find (\<lambda>w. w \<noteq> [] \<and> take (length w) (c # cs) = w) (map rev js_whitespace) = None"
proof -
  have no_match: "\<not> (w \<noteq> [] \<and> take (length w) (c # cs) = w)" if "\<not> is_digit (hd w)" for w
  proof
    assume a: "w \<noteq> [] \<and> take (length w) (c # cs) = w"
    from take_hd [OF conjunct1 [OF a] conjunct2 [OF a]] have "hd w = c" .
    with that assms show False by simp
  qed
  show "List.find (\<lambda>w. w \<noteq> [] \<and> take (length w) (c # cs) = w) js_whitespace = None"
    unfolding find_None_iff
  proof (intro notI, elim exE conjE)
    fix w assume "w \<in> set js_whitespace" "w \<noteq> []" "take (length w) (c # cs) = w"
    with whitespace_ends no_match [of w] show False by simp
  qed
  show "List.find (\<lambda>w. w \<noteq> [] \<and> take (length w) (c # cs) = w) (map rev js_whitespace) = None"
    unfolding find_None_iff
  proof (intro notI, elim exE conjE)
    fix w assume w: "w \<in> set (map rev js_whitespace)" "w \<noteq> []" "take (length w) (c # cs) = w"
    then obtain v where v: "v \<in> set js_whitespace" "w = rev v" by auto
    with whitespace_ends have "\<not> is_digit (hd w)" by (simp add: hd_rev)
    with w no_match [of w] show False by simp
  qed
qed

lemma digit_not_sign: "is_digit c \<Longrightarrow> c \<noteq> CHR ''-'' \<and> c \<noteq> CHR ''+''"
  by (auto simp: digit_code)

lemma trimStart_digit: "is_digit c \<Longrightarrow> trimStart (c # cs) = c # cs"
  unfolding trimStart_def by (subst strip_prefixes.simps) (simp add: digit_not_space)

lemma trimEnd_digit: "is_digit c \<Longrightarrow> trimEnd (cs @ [c]) = cs @ [c]"
  unfolding trimEnd_def by (subst strip_prefixes.simps) (simp add: digit_not_space)

lemma strip_one:
  "List.find (\<lambda>w. w \<noteq> [] \<and> take (length w) s = w) ws = Some w \<Longrightarrow>
   strip_prefixes ws s = strip_prefixes ws (drop (length w) s)"
  by (subst strip_prefixes.simps) simp

lemma trimStart_space: "trimStart (CHR '' '' # s) = trimStart s"
proof -
  have "List.find (\<lambda>w. w \<noteq> [] \<and> take (length w) (CHR '' '' # s) = w) js_whitespace = Some '' ''"
    by (simp add: js_whitespace_def)
  from strip_one [OF this] show ?thesis by (simp add: trimStart_def)
qed

lemma trimStart_spaces: "trimStart (replicate a CHR '' '' @ s) = trimStart s"
  by (induction a) (simp_all add: trimStart_space)

lemma trimEnd_space: "trimEnd (s @ '' '') = trimEnd s"
proof -
  have "List.find (\<lambda>w. w \<noteq> [] \<and> take (length w) (CHR '' '' # rev s) = w) (map rev js_whitespace) =
          Some '' ''"
    by (simp add: js_whitespace_def)
  from strip_one [OF this] show ?thesis by (simp add: trimEnd_def)
qed

lemma trimEnd_spaces: "trimEnd (s @ replicate b CHR '' '') = trimEnd s"
proof (induction b)
  case 0
  show ?case by simp
next
  case (Suc b)
  have "s @ replicate (Suc b) CHR '' '' = (s @ replicate b CHR '' '') @ '' ''"
    by (simp add: replicate_append_same)
  with Suc show ?case by (simp only: trimEnd_space)
qed

lemma trim_padded_digits:
  assumes "ds \<noteq> []" and "\<forall>c\<in>set ds. is_digit c"
  shows "trim (replicate a CHR '' '' @ ds @ replicate b CHR '' '') = ds"
proof -
  from assms obtain c cs where c: "ds = c # cs" "is_digit c" by (cases ds) auto
  then have 1: "trimStart (ds @ replicate b CHR '' '') = ds @ replicate b CHR '' ''"
    by (simp add: trimStart_digit)
  from assms obtain c' cs' where "ds = cs' @ [c']" "is_digit c'"
    by (cases ds rule: rev_cases) auto
  then have "trimEnd ds = ds" by (simp add: trimEnd_digit)
  with 1 show ?thesis by (simp add: trim_def trimStart_spaces trimEnd_spaces)
qed

lemma trim_digits:
  "ds \<noteq> [] \<Longrightarrow> \<forall>c\<in>set ds. is_digit c \<Longrightarrow> trim ds = ds"
  using trim_padded_digits [of ds 0 0] by simp

text \<open>Reading the digits of a numeral and printing the number gives the numeral back.\<close>

lemma digit_char: "c \<in> set ''0123456789'' \<Longrightarrow> is_digit c"
  by (auto simp: digit_code)

lemma digits_value_snoc: "digits_value (ds @ [c]) = 10 * digits_value ds + (of_char c - 48)"
  by (simp add: digits_value_def)

lemma decimal_digit: "is_digit c \<Longrightarrow> decimal (of_char c - 48) = [c]"
proof -
  assume "is_digit c"
  then have c: "48 \<le> (of_char c :: nat)" "(of_char c :: nat) \<le> 57"
    by (simp_all add: digit_code)
  then have "(of_char c :: nat) - 48 < 10" by simp
  moreover from c have "48 + ((of_char c :: nat) - 48) = of_char c" by simp
  ultimately show ?thesis by (simp add: decimal.simps)
qed

lemma decimal_digits_value:
  assumes "ds \<noteq> []" and "\<forall>c\<in>set ds. is_digit c" and "hd ds \<noteq> CHR ''0''"
  shows "0 < digits_value ds \<and> decimal (digits_value ds) = ds"
  using assms
proof (induction ds rule: rev_induct)
  case Nil
  then show ?case by simp
next
  case (snoc c ds)
  from snoc.prems have c: "48 \<le> (of_char c :: nat)" "(of_char c :: nat) \<le> 57"
    by (simp_all add: digit_code)
  show ?case
  proof (cases "ds = []")
    case True
    with snoc.prems have "c \<noteq> CHR ''0''" by simp
    then have "(of_char c :: nat) \<noteq> of_char CHR ''0''"
      by (simp only: of_char_eq_iff) simp
    with c have "0 < (of_char c :: nat) - 48" by simp
    with True snoc.prems show ?thesis
      by (simp add: digits_value_def decimal_digit)
  next
    case False
    with snoc have IH: "0 < digits_value ds" "decimal (digits_value ds) = ds"
      by simp_all
    let ?n = "10 * digits_value ds + ((of_char c :: nat) - 48)"
    from c have d: "(of_char c :: nat) - 48 < 10" by simp
    from IH(1) have "\<not> ?n < 10" by simp
    then have "decimal ?n = decimal (?n div 10) @ [char_of (48 + ?n mod 10)]"
      by (subst decimal.simps) simp
    moreover from d have "?n div 10 = digits_value ds" by simp
    moreover from d have "?n mod 10 = (of_char c :: nat) - 48" by simp
    moreover from c have "48 + ((of_char c :: nat) - 48) = of_char c" by simp
    ultimately have "decimal ?n = ds @ [c]"
      using IH(2) by simp
    with IH(1) show ?thesis by (simp add: digits_value_snoc)
  qed
qed

lemma decimal_numeral:
  assumes "ds \<noteq> []" and "\<forall>c\<in>set ds. is_digit c" and "hd ds = CHR ''0'' \<longrightarrow> ds = ''0''"
  shows "decimal (digits_value ds) = ds"
proof (cases "hd ds = CHR ''0''")
  case True
  with assms(3) have "ds = ''0''" by simp
  then show ?thesis by (simp add: digits_value_def decimal.simps char_of_def bit_iff_odd)
next
  case False
  with decimal_digits_value [OF assms(1,2)] show ?thesis by simp
qed

lemma digits_value_less: "\<forall>c\<in>set ds. is_digit c \<Longrightarrow> digits_value ds < 10 ^ length ds"
proof (induction ds rule: rev_induct)
  case Nil
  show ?case by (simp add: digits_value_def)
next
  case (snoc c ds)
  then have "(of_char c :: nat) \<le> 57" and "digits_value ds < 10 ^ length ds"
    by (simp_all add: digit_code)
  then show ?case by (simp add: digits_value_snoc)
qed

lemma digits_value_safe:
  assumes "\<forall>c\<in>set ds. is_digit c" and "length ds \<le> 15"
  shows "digits_value ds < 2 ^ 53"
proof -
  from assms(2) have "(10::nat) ^ length ds \<le> 10 ^ 15"
    by (intro power_increasing) simp_all
  with digits_value_less [OF assms(1)] show ?thesis by simp
qed

lemma parseInt10_digits:
  assumes "ds \<noteq> []" and "\<forall>c\<in>set ds. is_digit c" and "hd ds = CHR ''0'' \<longrightarrow> ds = ''0''"
    and "length ds \<le> 15"
  shows "parseInt10 ds = Finite ds"
proof -
  from assms obtain c cs where ds: "ds = c # cs" "is_digit c" by (cases ds) auto
  then have 1: "trimStart ds = c # cs" by (simp add: trimStart_digit)
  from assms(2) ds have 2: "takeWhile is_digit cs = cs"
    by simp
  from digits_value_safe [OF assms(2,4)] decimal_numeral [OF assms(1-3)] ds
  have 3: "Number_of_int (int (digits_value (c # cs))) = Finite (c # cs)"
    by (simp add: Number_of_int_safe)
  show ?thesis
    unfolding parseInt10_def Let_def 1
    using ds 2 3 digit_not_sign [of c] by (simp del: takeWhile_eq_all_conv)
qed

text \<open>Where the configuration holds a port, and where it holds none.\<close>

lemma configured_port:
  "config = JObject props \<Longrightarrow> map_of props ''server'' = Some (JObject sprops) \<Longrightarrow>
   map_of sprops ''port'' = Some port \<Longrightarrow>
   optional_property (optional_property config ''server'') ''port'' = port"
  by simp

lemma no_configured_port:
  assumes "\<nexists>props sprops port. config = JObject props \<and>
             map_of props ''server'' = Some (JObject sprops) \<and> map_of sprops ''port'' = Some port"
  shows "optional_property (optional_property config ''server'') ''port'' = JUndefined"
proof (cases config)
  case (JObject props)
  show ?thesis
  proof (cases "map_of props ''server''")
    case None
    with JObject show ?thesis by simp
  next
    case (Some server)
    with JObject assms show ?thesis
      by (cases server) (auto split: option.splits)
  qed
qed simp_all

lemma resolveServerPort_number:
  "optional_property (optional_property config ''server'') ''port'' = JNumber (Finite t) \<Longrightarrow>
   resolveServerPort config = Finite t"
  by (simp add: resolveServerPort_def)

lemma resolveServerPort_string:
  "optional_property (optional_property config ''server'') ''port'' = JString s \<Longrightarrow>
   trim s \<noteq> [] \<Longrightarrow> parseInt10 (trim s) = Finite t \<Longrightarrow> resolveServerPort config = Finite t"
  by (simp add: resolveServerPort_def)

lemma resolveServerPort_default:
  assumes "\<forall>t. optional_property (optional_property config ''server'') ''port'' \<noteq> JNumber (Finite t)"
    and "\<forall>s. optional_property (optional_property config ''server'') ''port'' = JString s \<longrightarrow>
           trim s = [] \<or> (\<forall>t. parseInt10 (trim s) \<noteq> Finite t)"
  shows "resolveServerPort config = Finite ''3000''"
proof (cases "optional_property (optional_property config ''server'') ''port''")
  case (JNumber n)
  with assms(1) show ?thesis by (cases n) (simp_all add: resolveServerPort_def)
next
  case (JString s)
  with assms(2) show ?thesis
    by (cases "parseInt10 (trim s)") (auto simp: resolveServerPort_def)
qed (simp_all add: resolveServerPort_def)

text \<open>
  Beyond \<open>2^53\<close>: a number that is not a double is rounded, and from \<open>10^21\<close> on the
  Number is printed with an exponent.
\<close>

lemma round_double_unfold:
  "round_double n =
     (if 2 ^ 1024 \<le>
           (if 2 ^ dbl_exponent n < 2 * (n mod 2 ^ dbl_exponent n) \<or>
               2 * (n mod 2 ^ dbl_exponent n) = 2 ^ dbl_exponent n \<and>
               odd (n div 2 ^ dbl_exponent n)
            then n div 2 ^ dbl_exponent n + 1 else n div 2 ^ dbl_exponent n) *
           2 ^ dbl_exponent n
      then None
      else Some
           ((if 2 ^ dbl_exponent n < 2 * (n mod 2 ^ dbl_exponent n) \<or>
                2 * (n mod 2 ^ dbl_exponent n) = 2 ^ dbl_exponent n \<and>
                odd (n div 2 ^ dbl_exponent n)
             then n div 2 ^ dbl_exponent n + 1 else n div 2 ^ dbl_exponent n) *
            2 ^ dbl_exponent n))"
  by (simp add: round_double_def Let_def)

lemma shortest_at_unfold:
  "shortest_at v j =
     (if round_double ((v div 10 ^ j) * 10 ^ j) = Some v \<and>
         round_double ((v div 10 ^ j) * 10 ^ j + 10 ^ j) = Some v then
        Some (if v - (v div 10 ^ j) * 10 ^ j < (v div 10 ^ j) * 10 ^ j + 10 ^ j - v
              then (v div 10 ^ j) * 10 ^ j
              else if (v div 10 ^ j) * 10 ^ j + 10 ^ j - v < v - (v div 10 ^ j) * 10 ^ j
              then (v div 10 ^ j) * 10 ^ j + 10 ^ j
              else if even (v div 10 ^ j) then (v div 10 ^ j) * 10 ^ j
              else (v div 10 ^ j) * 10 ^ j + 10 ^ j)
      else if round_double ((v div 10 ^ j) * 10 ^ j) = Some v then Some ((v div 10 ^ j) * 10 ^ j)
      else if round_double ((v div 10 ^ j) * 10 ^ j + 10 ^ j) = Some v
      then Some ((v div 10 ^ j) * 10 ^ j + 10 ^ j)
      else None)"
  unfolding shortest_at_def Let_def by (rule refl)

text \<open>\<open>2^53 + 1\<close> lies halfway between two doubles and goes to the even one, below.\<close>

lemma round_double_tie_down: "round_double 9007199254740993 = Some 9007199254740992"
  by (simp add: round_double_unfold dbl_exponent.simps)

lemma decimal_tie_down: "decimal 9007199254740992 = ''9007199254740992''"
  by (simp add: decimal.simps char_of_def bit_iff_odd)

lemma shortest_decimal_tie_down: "shortest_decimal 9007199254740992 = 9007199254740992"
  unfolding shortest_decimal_def decimal_tie_down
  by (simp add: shortest_at_unfold round_double_unfold dbl_exponent.simps)

lemma Number_of_int_tie_down: "Number_of_int 9007199254740993 = Finite ''9007199254740992''"
  by (simp add: Number_of_int_def round_double_tie_down integer_text_def shortest_decimal_tie_down
      decimal_tie_down)

lemma parseInt10_tie_down: "parseInt10 ''9007199254740993'' = Finite ''9007199254740992''"
  unfolding parseInt10_def Let_def
  by (simp add: trimStart_digit is_digit_def char_between_def digits_value_def
      Number_of_int_tie_down)

text \<open>\<open>2^53 + 3\<close> lies halfway between two doubles and goes to the even one, above.\<close>

lemma round_double_tie_up: "round_double 9007199254740995 = Some 9007199254740996"
  by (simp add: round_double_unfold dbl_exponent.simps)

lemma decimal_tie_up: "decimal 9007199254740996 = ''9007199254740996''"
  by (simp add: decimal.simps char_of_def bit_iff_odd)

lemma shortest_decimal_tie_up: "shortest_decimal 9007199254740996 = 9007199254740996"
  unfolding shortest_decimal_def decimal_tie_up
  by (simp add: shortest_at_unfold round_double_unfold dbl_exponent.simps)

lemma Number_of_int_tie_up: "Number_of_int 9007199254740995 = Finite ''9007199254740996''"
  by (simp add: Number_of_int_def round_double_tie_up integer_text_def shortest_decimal_tie_up
      decimal_tie_up)

lemma parseInt10_tie_up: "parseInt10 ''9007199254740995'' = Finite ''9007199254740996''"
  unfolding parseInt10_def Let_def
  by (simp add: trimStart_digit is_digit_def char_between_def digits_value_def
      Number_of_int_tie_up)

text \<open>\<open>10^21\<close> is a double, the first to be printed with an exponent.\<close>

lemma round_double_exponent: "round_double 1000000000000000000000 = Some 1000000000000000000000"
  by (simp add: round_double_unfold dbl_exponent.simps)

lemma decimal_exponent: "decimal 1000000000000000000000 = ''1000000000000000000000''"
  by (simp add: decimal.simps char_of_def bit_iff_odd)

lemma shortest_decimal_exponent: "shortest_decimal 1000000000000000000000 = 1000000000000000000000"
  unfolding shortest_decimal_def decimal_exponent
  by (simp add: shortest_at_unfold round_double_unfold dbl_exponent.simps)

lemma Number_of_int_exponent: "Number_of_int 1000000000000000000000 = Finite ''1e+21''"
  by (simp add: Number_of_int_def round_double_exponent integer_text_def shortest_decimal_exponent
      exponent_form_def decimal_exponent Let_def)
    (simp add: decimal.simps char_of_def bit_iff_odd)

lemma parseInt10_exponent: "parseInt10 ''1000000000000000000000'' = Finite ''1e+21''"
  unfolding parseInt10_def Let_def
  by (simp add: trimStart_digit is_digit_def char_between_def digits_value_def
      Number_of_int_exponent)

text \<open>
  \<open>10^23\<close> lies halfway between two doubles and goes to the even one, below; of that
  double \<open>10^23\<close> is the shortest decimal.
\<close>

lemma decimal_power_double: "decimal 99999999999999991611392 = ''99999999999999991611392''"
  by (simp add: decimal.simps char_of_def bit_iff_odd)

lemma round_double_power: "round_double 100000000000000000000000 = Some 99999999999999991611392"
  by (simp add: round_double_unfold dbl_exponent.simps)

lemma decimal_power: "decimal 100000000000000000000000 = ''100000000000000000000000''"
  by (simp add: decimal.simps char_of_def bit_iff_odd)

lemma shortest_decimal_power: "shortest_decimal 99999999999999991611392 = 100000000000000000000000"
  unfolding shortest_decimal_def decimal_power_double
  by (simp add: shortest_at_unfold round_double_unfold dbl_exponent.simps)

lemma Number_of_int_power: "Number_of_int 100000000000000000000000 = Finite ''1e+23''"
  by (simp add: Number_of_int_def round_double_power integer_text_def shortest_decimal_power
      exponent_form_def decimal_power Let_def)
    (simp add: decimal.simps char_of_def bit_iff_odd)

lemma parseInt10_power: "parseInt10 ''100000000000000000000000'' = Finite ''1e+23''"
  unfolding parseInt10_def Let_def
  by (simp add: trimStart_digit is_digit_def char_between_def digits_value_def
      Number_of_int_power)

text \<open>A sign, and text after the digits.\<close>

lemma trim_negative: "trim ''-5'' = ''-5''"
  by (simp add: trim_def trimEnd_def trimStart_def strip_prefixes.simps js_whitespace_def)

lemma parseInt10_negative: "parseInt10 ''-5'' = Finite ''-5''"
  unfolding parseInt10_def Let_def
  using Number_of_int_safe_negative [of 5]
  by (simp add: trimStart_def strip_prefixes.simps js_whitespace_def is_digit_def char_between_def
      digits_value_def decimal.simps char_of_def bit_iff_odd)

lemma trim_suffix: "trim ''8080abc'' = ''8080abc''"
  by (simp add: trim_def trimEnd_def trimStart_def strip_prefixes.simps js_whitespace_def)

lemma parseInt10_suffix: "parseInt10 ''8080abc'' = Finite ''8080''"
  unfolding parseInt10_def Let_def
  using Number_of_int_safe [of 8080]
  by (simp add: trimStart_digit is_digit_def char_between_def digits_value_def decimal.simps
      char_of_def bit_iff_odd)

text \<open>A string with no digit to read.\<close>

lemma trim_abc: "trim ''abc'' = ''abc''"
  by (simp add: trim_def trimEnd_def trimStart_def strip_prefixes.simps js_whitespace_def)

lemma parseInt10_abc: "parseInt10 ''abc'' = NaN"
  unfolding parseInt10_def Let_def
  by (simp add: trimStart_def strip_prefixes.simps js_whitespace_def is_digit_def char_between_def)

subsection \<open>Writing and reading a query string\<close>

lemma split_on_not_Nil [simp]: "split_on sep s \<noteq> []"
  by (induction s) (auto split: list.splits)

lemma split_on_no_sep: "sep \<notin> set a \<Longrightarrow> split_on sep a = [a]"
  by (induction a) (auto split: list.splits)

lemma split_on_append: "sep \<notin> set a \<Longrightarrow> split_on sep (a @ sep # r) = a # split_on sep r"
  by (induction a) (auto split: list.splits)

lemma less_16_cases:
  "(d::nat) < 16 \<Longrightarrow> d = 0 \<or> d = 1 \<or> d = 2 \<or> d = 3 \<or> d = 4 \<or> d = 5 \<or> d = 6 \<or> d = 7
    \<or> d = 8 \<or> d = 9 \<or> d = 10 \<or> d = 11 \<or> d = 12 \<or> d = 13 \<or> d = 14 \<or> d = 15"
  by arith

lemma hex_upper_cases:
  assumes "d < 16"
  shows "hex_upper d \<in> set ''0123456789ABCDEF'' \<and> hex_value (hex_upper d) = d \<and>
         is_hex (hex_upper d)"
  using less_16_cases [OF assms]
  by (elim disjE)
    (simp_all add: hex_upper_def hex_value_def is_hex_def char_between_def char_of_def bit_iff_odd)

lemma form_decode_plus: "form_decode (CHR ''+'' # cs) = CHR '' '' # form_decode cs"
  by (cases cs rule: form_decode.cases) simp_all

lemma form_decode_plain:
  "c \<noteq> CHR ''+'' \<Longrightarrow> c \<noteq> CHR ''%'' \<Longrightarrow> form_decode (c # cs) = c # form_decode cs"
  by (cases cs rule: form_decode.cases) simp_all

lemma form_decode_percent:
  "is_hex h \<Longrightarrow> is_hex l \<Longrightarrow>
   form_decode (CHR ''%'' # h # l # cs) = char_of (16 * hex_value h + hex_value l) # form_decode cs"
  by simp

lemma form_safe_plain: "form_safe c \<Longrightarrow> c \<noteq> CHR ''+'' \<and> c \<noteq> CHR ''%'' \<and> c \<noteq> CHR ''&'' \<and> c \<noteq> CHR ''=''"
  by (auto simp: form_safe_def char_between_def)

lemma of_char_div_16: "(of_char (c::char) :: nat) div 16 < 16"
proof -
  have "(of_char c :: nat) < 256" by simp
  then show ?thesis by (simp add: less_mult_imp_div_less)
qed

lemma form_decode_encode_char:
  "form_decode (form_encode_char c @ rest) = c # form_decode rest"
proof -
  let ?n = "of_char c :: nat"
  have hi: "hex_value (hex_upper (?n div 16)) = ?n div 16" "is_hex (hex_upper (?n div 16))"
    using hex_upper_cases [OF of_char_div_16] by simp_all
  have lo: "hex_value (hex_upper (?n mod 16)) = ?n mod 16" "is_hex (hex_upper (?n mod 16))"
    using hex_upper_cases [of "?n mod 16"] by simp_all
  have "char_of (16 * (?n div 16) + ?n mod 16) = c"
    by simp
  with hi lo show ?thesis
    by (auto simp: form_encode_char_def form_decode_plus form_decode_plain form_decode_percent
        dest: form_safe_plain simp del: form_decode.simps)
qed

lemma form_decode_encode: "form_decode (form_encode s) = s"
proof (induction s)
  case Nil
  show ?case by (simp add: form_encode_def)
next
  case (Cons c s)
  then show ?case
    by (simp add: form_encode_def form_decode_encode_char del: form_decode.simps)
qed

lemma hex_upper_not_sep: "d < 16 \<Longrightarrow> hex_upper d \<noteq> CHR ''&'' \<and> hex_upper d \<noteq> CHR ''=''"
  using hex_upper_cases [of d] by auto

lemma form_encode_char_no_sep:
  "CHR ''&'' \<notin> set (form_encode_char c) \<and> CHR ''='' \<notin> set (form_encode_char c)"
  using hex_upper_not_sep [OF of_char_div_16, of c] hex_upper_not_sep [of "of_char c mod 16"]
  by (auto simp: form_encode_char_def dest: form_safe_plain)

lemma form_encode_no_sep:
  "CHR ''&'' \<notin> set (form_encode s) \<and> CHR ''='' \<notin> set (form_encode s)"
  using form_encode_char_no_sep by (auto simp: form_encode_def)

lemma parse_pair:
  "form_decode (takeWhile (\<lambda>c. c \<noteq> CHR ''='') (form_encode k @ ''='' @ form_encode v)) = k \<and>
   form_decode (drop 1 (dropWhile (\<lambda>c. c \<noteq> CHR ''='') (form_encode k @ ''='' @ form_encode v))) = v"
proof -
  have "\<forall>c\<in>set (form_encode k). c \<noteq> CHR ''=''"
    using form_encode_no_sep [of k] by auto
  then show ?thesis
    by (simp add: form_decode_encode del: form_decode.simps)
qed

lemma pair_no_amp: "CHR ''&'' \<notin> set (form_encode k @ ''='' @ form_encode v)"
  using form_encode_no_sep [of k] form_encode_no_sep [of v] by simp

lemma pair_not_Nil: "form_encode k @ ''='' @ form_encode v \<noteq> []"
  by simp

lemma parse_serialized: "parse_form_urlencoded (URLSearchParams_toString ps) = ps"
proof (induction ps rule: induct_list012)
  case 1
  show ?case by (simp add: parse_form_urlencoded_def URLSearchParams_toString_def)
next
  case (2 p)
  obtain k v where p: "p = (k, v)" by (cases p)
  show ?case
    using parse_pair [of k v] pair_no_amp [of k v]
    by (simp add: p parse_form_urlencoded_def URLSearchParams_toString_def split_on_no_sep
        del: form_decode.simps)
next
  case (3 p q ps)
  obtain k v where p: "p = (k, v)" by (cases p)
  have "URLSearchParams_toString (p # q # ps) =
      (form_encode k @ ''='' @ form_encode v) @ CHR ''&'' # URLSearchParams_toString (q # ps)"
    by (simp add: p URLSearchParams_toString_def)
  then have "parse_form_urlencoded (URLSearchParams_toString (p # q # ps)) =
      (k, v) # parse_form_urlencoded (URLSearchParams_toString (q # ps))"
    using parse_pair [of k v] split_on_append [OF pair_no_amp, of k v] pair_not_Nil [of k v]
    by (simp add: parse_form_urlencoded_def del: form_decode.simps)
  with 3 p show ?case by simp
qed

lemmas form_eval =
  form_encode_def form_encode_char_def form_safe_def char_between_def hex_upper_def
  char_of_def bit_iff_odd

lemma scope_encoded:
  "form_encode ''https://www.googleapis.com/auth/cloud-platform https://www.googleapis.com/auth/userinfo.email https://www.googleapis.com/auth/userinfo.profile https://www.googleapis.com/auth/cclog https://www.googleapis.com/auth/experimentsandconfigs'' =
   ''https%3A%2F%2Fwww.googleapis.com%2Fauth%2Fcloud-platform+https%3A%2F%2Fwww.googleapis.com%2Fauth%2Fuserinfo.email+https%3A%2F%2Fwww.googleapis.com%2Fauth%2Fuserinfo.profile+https%3A%2F%2Fwww.googleapis.com%2Fauth%2Fcclog+https%3A%2F%2Fwww.googleapis.com%2Fauth%2Fexperimentsandconfigs''"
  by (simp add: form_eval)

lemma buildAuthUrl_text:
  "buildAuthUrl clientId st uri =
     ''https://accounts.google.com/o/oauth2/v2/auth?access_type=offline&scope=https%3A%2F%2Fwww.googleapis.com%2Fauth%2Fcloud-platform+https%3A%2F%2Fwww.googleapis.com%2Fauth%2Fuserinfo.email+https%3A%2F%2Fwww.googleapis.com%2Fauth%2Fuserinfo.profile+https%3A%2F%2Fwww.googleapis.com%2Fauth%2Fcclog+https%3A%2F%2Fwww.googleapis.com%2Fauth%2Fexperimentsandconfigs&state=''
     @ form_encode st @ ''&prompt=consent&response_type=code&client_id='' @ form_encode clientId
     @ ''&redirect_uri='' @ form_encode uri"
proof -
  have small: "form_encode ''access_type'' = ''access_type''" "form_encode ''offline'' = ''offline''"
    "form_encode ''scope'' = ''scope''" "form_encode ''state'' = ''state''"
    "form_encode ''prompt'' = ''prompt''" "form_encode ''consent'' = ''consent''"
    "form_encode ''response_type'' = ''response_type''" "form_encode ''code'' = ''code''"
    "form_encode ''client_id'' = ''client_id''" "form_encode ''redirect_uri'' = ''redirect_uri''"
    by (simp_all add: form_eval)
  show ?thesis
    unfolding buildAuthUrl_def Let_def URLSearchParams_toString_def
    by (simp add: small scope_encoded)
qed

lemma redirect_uri_encoded: "form_encode ''http://localhost:3000/oauth-callback'' = ''http%3A%2F%2Flocalhost%3A3000%2Foauth-callback''"
  by (simp add: form_eval)

subsection \<open>Replacing single characters\<close>

lemma replaceAll_char:
  "replaceAll [c] rep s = concat (map (\<lambda>x. if x = c then rep else [x]) s)"
  by (induction s) simp_all

lemma replaceAll_char_absent:
  "c \<notin> set rep \<Longrightarrow> c \<notin> set (replaceAll [c] rep s)"
  by (auto simp: replaceAll_char)

lemma concat_map_concat_map:
  "concat (map f (concat (map g s))) = concat (map (\<lambda>x. concat (map f (g x))) s)"
  by (induction s) simp_all

lemma escapeHtml_entities: \<open>escapeHtml str = concat (map html_entity (or_else str []))\<close>
proof -
  have \<open>(\<lambda>x. concat (map (\<lambda>x. if x = CHR 0x27 then ''&#39;'' else [x])
          (concat (map (\<lambda>x. if x = CHR ''"'' then ''&quot;'' else [x])
            (concat (map (\<lambda>x. if x = CHR ''>'' then ''&gt;'' else [x])
              (concat (map (\<lambda>x. if x = CHR ''<'' then ''&lt;'' else [x])
                (if x = CHR ''&'' then ''&amp;'' else [x])))))))))
        = html_entity\<close>
    by (rule ext) (simp add: html_entity_def)
  then show ?thesis
    by (simp add: escapeHtml_def Let_def replaceAll_char concat_map_concat_map)
qed

lemma html_entity_chars:
  \<open>CHR ''<'' \<notin> set (html_entity c) \<and> CHR ''>'' \<notin> set (html_entity c) \<and>
   CHR ''"'' \<notin> set (html_entity c) \<and> CHR 0x27 \<notin> set (html_entity c)\<close>
  by (simp add: html_entity_def)

lemma escapeHtml_chars:
  \<open>CHR ''<'' \<notin> set (escapeHtml str) \<and> CHR ''>'' \<notin> set (escapeHtml str) \<and>
   CHR ''"'' \<notin> set (escapeHtml str) \<and> CHR 0x27 \<notin> set (escapeHtml str)\<close>
  using html_entity_chars by (auto simp: escapeHtml_entities)

subsection \<open>The token exchange of repeated callbacks\<close>

text \<open>
  C1, as the code has it. The claim asks for at most one call of the token exchange per
  session. The code has no test of \<open>session.result\<close> before the exchange: each
  \<open>completeOAuthCallback\<close> calls \<open>exchangeCodeForToken\<close> at most once, so a sequence of
  requests makes at most as many exchange calls as it has callbacks, and a callback on a
  session whose result is already set does exchange again.
\<close>

theorem exchange_at_most_once_per_callback:
  "length (exchange_calls (run reqs w)) \<le>
     length (exchange_calls w) + length (filter is_Callback reqs)"
  using run_exchange_calls [of reqs w] by auto

theorem exchange_at_most_once_per_callback_witness:
  "length (exchange_calls
     (run [Status 1500 ''s1'',
           Callback 2000 (\<lambda>c u (l::unit). Inr ''creds'') (Some ''s1'') (Some ''abc'') None None
             (Inr \<lparr>apiLimiter = (), addAccount = (\<lambda>c::string. None)\<rparr>)]
        \<lparr>sessions = [''s1'' \<mapsto> Session \<lparr>createdAt = 1000,
           redirectUri = ''http://localhost:3000/oauth-callback'', result = None\<rparr>],
         exchange_calls = []\<rparr>)) \<le> 1"
  using exchange_at_most_once_per_callback
    [of "[Status 1500 ''s1'',
          Callback 2000 (\<lambda>c u (l::unit). Inr ''creds'') (Some ''s1'') (Some ''abc'') None None
            (Inr \<lparr>apiLimiter = (), addAccount = (\<lambda>c::string. None)\<rparr>)]"
        "\<lparr>sessions = [''s1'' \<mapsto> Session \<lparr>createdAt = 1000,
           redirectUri = ''http://localhost:3000/oauth-callback'', result = None\<rparr>],
         exchange_calls = []\<rparr>"]
  by simp

text \<open>
  C1 fails as stated: two callbacks with the same state and a valid code, the second on
  a session whose result the first has set, call the token exchange twice.
\<close>

theorem repeated_callback_exchanges_again:
  "exchange_calls
     (run [Callback 2000 (\<lambda>c u (l::unit). Inr ''creds'') (Some ''s1'') (Some ''abc'') None None
             (Inr \<lparr>apiLimiter = (), addAccount = (\<lambda>c::string. None)\<rparr>),
           Callback 3000 (\<lambda>c u (l::unit). Inr ''creds'') (Some ''s1'') (Some ''abc'') None None
             (Inr \<lparr>apiLimiter = (), addAccount = (\<lambda>c::string. None)\<rparr>)]
        \<lparr>sessions = [''s1'' \<mapsto> Session \<lparr>createdAt = 1000,
           redirectUri = ''http://localhost:3000/oauth-callback'', result = None\<rparr>],
         exchange_calls = []\<rparr>) =
     [(''abc'', ''http://localhost:3000/oauth-callback''),
      (''abc'', ''http://localhost:3000/oauth-callback'')] \<and>
   sessions_get
     (sessions
       (run [Callback 2000 (\<lambda>c u (l::unit). Inr ''creds'') (Some ''s1'') (Some ''abc'') None None
               (Inr \<lparr>apiLimiter = (), addAccount = (\<lambda>c::string. None)\<rparr>)]
          \<lparr>sessions = [''s1'' \<mapsto> Session \<lparr>createdAt = 1000,
             redirectUri = ''http://localhost:3000/oauth-callback'', result = None\<rparr>],
           exchange_calls = []\<rparr>)) ''s1'' =
     Some \<lparr>createdAt = 1000, redirectUri = ''http://localhost:3000/oauth-callback'',
           result = Some \<lparr>success = True, message = msg_auth_ok\<rparr>\<rparr>"
  by (simp add: eval_defs)

subsection \<open>The result a callback returns and the result a poll reads\<close>

text \<open>
  C2, as the code has it. When the callback finds the session of its state (after the
  eviction) and returns a result, that result is written to the session's \<open>result\<close>
  field in the store, and every later \<open>getOAuthStatus\<close> for that state within the TTL
  of the session answers \<open>completed\<close> with the same \<open>success\<close> and \<open>message\<close>, as
  long as no other callback for that state has run in between (the requests in between
  evict within the TTL and do not mint the token again). The two early returns, for a
  missing state and for an absent session, have no session to write to.
\<close>

theorem callback_result_is_recorded:
  assumes "st \<noteq> []"
    and "sessions_get (cleanupExpiredSessions now (sessions w)) st = Some s"
    and "completeOAuthCallback now ex (Some st) code err descr am w = (Inr r, w')"
    and "\<forall>q\<in>set reqs. eviction_time q - createdAt s \<le> SESSION_TTL_MS \<and>
           \<not> mints st q \<and> \<not> callback_for st q"
    and "now' - createdAt s \<le> SESSION_TTL_MS"
  shows "sessions w' st = Some (Session (s\<lparr>result := Some r\<rparr>)) \<and>
         fst (getOAuthStatus now' st (sessions (run reqs w'))) = Status_completed r"
proof -
  from callback_found_store [OF assms(1-3)]
  have "sessions w' =
      (cleanupExpiredSessions now (sessions w))(st \<mapsto> Session (s\<lparr>result := Some r\<rparr>))"
    by auto
  then have w': "sessions w' st = Some (Session (s\<lparr>result := Some r\<rparr>))"
    by simp
  from assms(2) have created: "createdAt (s\<lparr>result := Some r\<rparr>) \<noteq> 0"
    by (simp add: sessions_get_cleanup)
  from assms(4)
  have "\<forall>q\<in>set reqs. eviction_time q - createdAt (s\<lparr>result := Some r\<rparr>) \<le> SESSION_TTL_MS \<and>
      \<not> mints st q \<and> \<not> callback_for st q"
    by simp
  from run_keeps_session [OF w' created this]
  have "sessions (run reqs w') st = Some (Session (s\<lparr>result := Some r\<rparr>))" .
  with created assms(5)
  have "fst (getOAuthStatus now' st (sessions (run reqs w'))) = Status_completed r"
    by (simp add: getOAuthStatus_def Let_def sessions_get_def cleanup_keeps)
  with w' show ?thesis by simp
qed

theorem callback_result_is_recorded_witness:
  "fst (getOAuthStatus 5000 ''s1''
     (sessions
       (run ([Status 3000 ''s1'', Start 3500 3501 ''s2'' ''client'' JUndefined]
               :: (unit, string) request list)
          \<lparr>sessions = [''s1'' \<mapsto> Session \<lparr>createdAt = 1000,
             redirectUri = ''http://localhost:3000/oauth-callback'',
             result = Some \<lparr>success = False, message = msg_auth_failed @ ''access_denied''\<rparr>\<rparr>],
           exchange_calls = []\<rparr>))) =
   Status_completed \<lparr>success = False, message = msg_auth_failed @ ''access_denied''\<rparr>"
proof -
  let ?s = "\<lparr>createdAt = 1000, redirectUri = ''http://localhost:3000/oauth-callback'',
             result = None\<rparr>"
  let ?r = "\<lparr>success = False, message = msg_auth_failed @ ''access_denied''\<rparr>"
  let ?w = "\<lparr>sessions = [''s1'' \<mapsto> Session ?s], exchange_calls = []\<rparr>"
  let ?w' = "\<lparr>sessions = [''s1'' \<mapsto> Session (?s\<lparr>result := Some ?r\<rparr>)], exchange_calls = []\<rparr>"
  let ?reqs = "[Status 3000 ''s1'', Start 3500 3501 ''s2'' ''client'' JUndefined]
                 :: (unit, string) request list"
  have 1: "''s1'' \<noteq> []" by simp
  have 2: "sessions_get (cleanupExpiredSessions 2000 (sessions ?w)) ''s1'' = Some ?s"
    by (simp add: eval_defs)
  have 3: "completeOAuthCallback 2000 (\<lambda>c u (l::unit). Inr ''creds'') (Some ''s1'') None
             (Some ''access_denied'') None
             (Inr \<lparr>apiLimiter = (), addAccount = (\<lambda>c::string. None)\<rparr>) ?w = (Inr ?r, ?w')"
    by (simp add: eval_defs fun_eq_iff)
  have 4: "\<forall>q\<in>set ?reqs. eviction_time q - createdAt ?s \<le> SESSION_TTL_MS \<and>
             \<not> mints ''s1'' q \<and> \<not> callback_for ''s1'' q"
    by (simp add: SESSION_TTL_MS_def)
  have 5: "5000 - createdAt ?s \<le> SESSION_TTL_MS"
    by (simp add: SESSION_TTL_MS_def)
  from callback_result_is_recorded [OF 1 2 3 4 5] show ?thesis
    by simp
qed

text \<open>
  C2 fails as stated, in two ways. A callback for a state that the store does not hold
  returns a result, writes it nowhere, and the next \<open>getOAuthStatus\<close> for that state
  answers \<open>expired\<close>. And "any later" poll need not see what a callback returned: a
  first callback returns success, a second callback for the same state (with an error
  parameter) overwrites the result, and the poll after it answers \<open>completed\<close> with
  the failure.
\<close>

theorem returned_result_is_not_what_the_poll_reads:
  "fst (completeOAuthCallback 2000 (\<lambda>c u (l::unit). Inr ''creds'') (Some ''s1'') (Some ''abc'')
          None None (Inr \<lparr>apiLimiter = (), addAccount = (\<lambda>c::string. None)\<rparr>)
          \<lparr>sessions = Map.empty, exchange_calls = []\<rparr>) =
     Inr \<lparr>success = False, message = ''OAuth state not found or expired''\<rparr> \<and>
   fst (getOAuthStatus 2001 ''s1''
          (sessions (snd (completeOAuthCallback 2000 (\<lambda>c u (l::unit). Inr ''creds'')
             (Some ''s1'') (Some ''abc'') None None
             (Inr \<lparr>apiLimiter = (), addAccount = (\<lambda>c::string. None)\<rparr>)
             \<lparr>sessions = Map.empty, exchange_calls = []\<rparr>)))) =
     Status_expired ''OAuth state not found or expired'' \<and>
   fst (completeOAuthCallback 2000 (\<lambda>c u (l::unit). Inr ''creds'') (Some ''s1'') (Some ''abc'')
          None None (Inr \<lparr>apiLimiter = (), addAccount = (\<lambda>c::string. None)\<rparr>)
          \<lparr>sessions = [''s1'' \<mapsto> Session \<lparr>createdAt = 1000,
             redirectUri = ''http://localhost:3000/oauth-callback'', result = None\<rparr>],
           exchange_calls = []\<rparr>) =
     Inr \<lparr>success = True, message = msg_auth_ok\<rparr> \<and>
   fst (getOAuthStatus 4000 ''s1''
          (sessions
            (run [Callback 2000 (\<lambda>c u (l::unit). Inr ''creds'') (Some ''s1'') (Some ''abc'')
                    None None (Inr \<lparr>apiLimiter = (), addAccount = (\<lambda>c::string. None)\<rparr>),
                  Callback 3000 (\<lambda>c u (l::unit). Inr ''creds'') (Some ''s1'') None
                    (Some ''access_denied'') None
                    (Inr \<lparr>apiLimiter = (), addAccount = (\<lambda>c::string. None)\<rparr>)]
               \<lparr>sessions = [''s1'' \<mapsto> Session \<lparr>createdAt = 1000,
                  redirectUri = ''http://localhost:3000/oauth-callback'', result = None\<rparr>],
                exchange_calls = []\<rparr>))) =
     Status_completed \<lparr>success = False, message = msg_auth_failed @ ''access_denied''\<rparr>"
  by (simp add: eval_defs)

subsection \<open>A callback for a state that the store does not hold\<close>

text \<open>
  C3. A callback with a non-empty state for which the store, after the eviction, has no
  session returns \<open>success = False\<close> with the message "OAuth state not found or
  expired", whatever the code, the error and the error description are, and makes no
  call of the token exchange.
\<close>

theorem callback_on_absent_state:
  assumes "st \<noteq> []"
    and "sessions_get (cleanupExpiredSessions now (sessions w)) st = None"
  shows "fst (completeOAuthCallback now ex (Some st) code err descr am w) =
           Inr \<lparr>success = False, message = ''OAuth state not found or expired''\<rparr> \<and>
         exchange_calls (snd (completeOAuthCallback now ex (Some st) code err descr am w)) =
           exchange_calls w \<and>
         sessions (snd (completeOAuthCallback now ex (Some st) code err descr am w)) =
           cleanupExpiredSessions now (sessions w)"
  using assms by (simp add: callback_no_session)

theorem callback_on_absent_state_witness:
  "fst (completeOAuthCallback 1801001 (\<lambda>c u (l::unit). Inr ''creds'') (Some ''s1'') (Some ''abc'')
          (Some ''access_denied'') None
          (Inr \<lparr>apiLimiter = (), addAccount = (\<lambda>c::string. None)\<rparr>)
          \<lparr>sessions = [''s1'' \<mapsto> Session \<lparr>createdAt = 1000,
             redirectUri = ''http://localhost:3000/oauth-callback'', result = None\<rparr>],
           exchange_calls = []\<rparr>) =
     Inr \<lparr>success = False, message = ''OAuth state not found or expired''\<rparr> \<and>
   exchange_calls (snd (completeOAuthCallback 1801001 (\<lambda>c u (l::unit). Inr ''creds'')
          (Some ''s1'') (Some ''abc'') (Some ''access_denied'') None
          (Inr \<lparr>apiLimiter = (), addAccount = (\<lambda>c::string. None)\<rparr>)
          \<lparr>sessions = [''s1'' \<mapsto> Session \<lparr>createdAt = 1000,
             redirectUri = ''http://localhost:3000/oauth-callback'', result = None\<rparr>],
           exchange_calls = []\<rparr>)) = []"
proof -
  let ?w = "\<lparr>sessions = [''s1'' \<mapsto> Session \<lparr>createdAt = 1000,
             redirectUri = ''http://localhost:3000/oauth-callback'', result = None\<rparr>],
           exchange_calls = []\<rparr>"
  have 1: "''s1'' \<noteq> []" by simp
  have 2: "sessions_get (cleanupExpiredSessions 1801001 (sessions ?w)) ''s1'' = None"
    by (simp add: eval_defs)
  from callback_on_absent_state [OF 1 2, of "\<lambda>c u (l::unit). Inr ''creds''" "Some ''abc''"
      "Some ''access_denied''" None "Inr \<lparr>apiLimiter = (), addAccount = (\<lambda>c::string. None)\<rparr>"]
  show ?thesis by simp
qed

subsection \<open>Expiry\<close>

text \<open>
  C4. Once a session, completed or not, is older than the TTL (\<open>now - createdAt\<close>
  exceeds 30 minutes), \<open>getOAuthStatus\<close> answers \<open>expired\<close> for its state: at that
  time and at every later time, after any requests in between (each evicting at a
  reading of the clock that is not earlier, none of them minting the same token again).
  The first operation on the store deletes the entry, whether it has a result or not.
\<close>

theorem expired_session_stays_expired:
  assumes "sessions w st = Some (Session s)"
    and "now - createdAt s > SESSION_TTL_MS"
    and "\<forall>r\<in>set reqs. now \<le> eviction_time r \<and> \<not> mints st r"
    and "now \<le> now'"
  shows "fst (getOAuthStatus now' st (sessions (run reqs w))) =
           Status_expired ''OAuth state not found or expired''"
proof -
  from assms(1,2)
  have "sessions w st = None \<or> (\<exists>e. sessions w st = Some e \<and> evicted now e)"
    by simp
  from run_keeps_absent [OF this assms(3)] assms(4)
  have "cleanupExpiredSessions now' (sessions (run reqs w)) st = None"
    by (intro cleanup_evicted [where now = now]) auto
  then show ?thesis
    by (simp add: getOAuthStatus_def Let_def sessions_get_def)
qed

theorem expired_session_stays_expired_witness:
  "fst (getOAuthStatus 1801004 ''s1''
     (sessions
       (run [Status 1801001 ''s1'',
             Start 1801002 1801002 ''s2'' ''client'' JUndefined,
             Callback 1801003 (\<lambda>c u (l::unit). Inr ''creds'') (Some ''s1'') (Some ''abc'') None
               None (Inr \<lparr>apiLimiter = (), addAccount = (\<lambda>c::string. None)\<rparr>)]
          \<lparr>sessions = [''s1'' \<mapsto> Session \<lparr>createdAt = 1000,
             redirectUri = ''http://localhost:3000/oauth-callback'',
             result = Some \<lparr>success = True, message = msg_auth_ok\<rparr>\<rparr>],
           exchange_calls = []\<rparr>))) =
   Status_expired ''OAuth state not found or expired''"
proof -
  let ?s = "\<lparr>createdAt = 1000, redirectUri = ''http://localhost:3000/oauth-callback'',
             result = Some \<lparr>success = True, message = msg_auth_ok\<rparr>\<rparr>"
  let ?w = "\<lparr>sessions = [''s1'' \<mapsto> Session ?s], exchange_calls = []\<rparr>"
  let ?reqs = "[Status 1801001 ''s1'',
             Start 1801002 1801002 ''s2'' ''client'' JUndefined,
             Callback 1801003 (\<lambda>c u (l::unit). Inr ''creds'') (Some ''s1'') (Some ''abc'') None
               None (Inr \<lparr>apiLimiter = (), addAccount = (\<lambda>c::string. None)\<rparr>)]"
  have 1: "sessions ?w ''s1'' = Some (Session ?s)" by simp
  have 2: "1801001 - createdAt ?s > SESSION_TTL_MS" by (simp add: SESSION_TTL_MS_def)
  have 3: "\<forall>r\<in>set ?reqs. 1801001 \<le> eviction_time r \<and> \<not> mints ''s1'' r" by simp
  have 4: "(1801001::int) \<le> 1801004" by simp
  from expired_session_stays_expired [OF 1 2 3 4] show ?thesis .
qed

subsection \<open>Starting a session\<close>

text \<open>
  C5. For every configuration value \<open>startOAuthSession\<close> returns a reply (it has no
  failing branch), and the new store is the evicted store with one more entry, under
  the returned state: a session with \<open>result = null\<close>, the second clock reading and
  the redirect URI of the reply. That redirect URI is
  \<open>http://localhost:<port>/oauth-callback\<close>, where the port is as follows.
  \<^item> When the configuration is an object whose \<open>server\<close> is an object with a \<open>port\<close>:
    \<^item> for a finite Number, the text of that Number;
    \<^item> for a string that is a decimal numeral of at most 15 digits with spaces around
      it, that numeral;
    \<^item> for any string whose trimmed text is not empty and is read by \<open>parseInt\<close> as a
      finite Number, the text of that Number;
    \<^item> for anything else (\<open>NaN\<close>, an infinity, a blank string, a string that does not
      begin with a number, a value that is neither a Number nor a string), \<open>3000\<close>.
  \<^item> When there is no such port (the configuration or its \<open>server\<close> is missing or is
    not an object, or the \<open>server\<close> has no \<open>port\<close>), \<open>3000\<close>.
\<close>

theorem startOAuthSession_reply:
  "\<exists>reply store1.
     startOAuthSession now now' fresh clientId config store0 = (reply, store1) \<and>
     state reply = fresh \<and>
     auth_url reply = buildAuthUrl clientId fresh (redirect_uri reply) \<and>
     expires_in_ms reply = 1800000 \<and>
     store1 =
       (cleanupExpiredSessions now store0)
         (fresh \<mapsto> Session \<lparr>createdAt = now', redirectUri = redirect_uri reply, result = None\<rparr>) \<and>
     (\<forall>props sprops port.
        config = JObject props \<and> map_of props ''server'' = Some (JObject sprops) \<and>
        map_of sprops ''port'' = Some port \<longrightarrow>
          (\<forall>t. port = JNumber (Finite t) \<longrightarrow>
             redirect_uri reply = ''http://localhost:'' @ t @ ''/oauth-callback'') \<and>
          (\<forall>a ds b. port = JString (replicate a CHR '' '' @ ds @ replicate b CHR '' '') \<and>
             ds \<noteq> [] \<and> set ds \<subseteq> set ''0123456789'' \<and> (hd ds = CHR ''0'' \<longrightarrow> ds = ''0'') \<and>
             length ds \<le> 15 \<longrightarrow>
             redirect_uri reply = ''http://localhost:'' @ ds @ ''/oauth-callback'') \<and>
          (\<forall>s t. port = JString s \<and> trim s \<noteq> [] \<and> parseInt10 (trim s) = Finite t \<longrightarrow>
             redirect_uri reply = ''http://localhost:'' @ t @ ''/oauth-callback'') \<and>
          ((\<forall>t. port \<noteq> JNumber (Finite t)) \<and>
           (\<forall>s. port = JString s \<longrightarrow> trim s = [] \<or> (\<forall>t. parseInt10 (trim s) \<noteq> Finite t)) \<longrightarrow>
             redirect_uri reply = ''http://localhost:3000/oauth-callback'')) \<and>
     ((\<nexists>props sprops port.
         config = JObject props \<and> map_of props ''server'' = Some (JObject sprops) \<and>
         map_of sprops ''port'' = Some port) \<longrightarrow>
        redirect_uri reply = ''http://localhost:3000/oauth-callback'')"
proof -
  define uri where
    "uri = ''http://localhost:'' @ Number_toString (resolveServerPort config) @ ''/oauth-callback''"
  define reply where
    "reply = \<lparr>state = fresh, auth_url = buildAuthUrl clientId fresh uri, redirect_uri = uri,
               expires_in_ms = SESSION_TTL_MS\<rparr>"
  define store1 where
    "store1 = (cleanupExpiredSessions now store0)
       (fresh \<mapsto> Session \<lparr>createdAt = now', redirectUri = uri, result = None\<rparr>)"
  let ?rawPort = "optional_property (optional_property config ''server'') ''port''"
  have start: "startOAuthSession now now' fresh clientId config store0 = (reply, store1)"
    by (simp add: startOAuthSession_def Let_def reply_def store1_def uri_def sessions_set_def)
  have number: "uri = ''http://localhost:'' @ t @ ''/oauth-callback''"
    if "?rawPort = JNumber (Finite t)" for t
    using that by (simp add: uri_def resolveServerPort_number)
  have parsed: "uri = ''http://localhost:'' @ t @ ''/oauth-callback''"
    if "?rawPort = JString s" and "trim s \<noteq> []" and "parseInt10 (trim s) = Finite t" for s t
    using that by (simp add: uri_def resolveServerPort_string)
  have numeral: "uri = ''http://localhost:'' @ ds @ ''/oauth-callback''"
    if "?rawPort = JString (replicate a CHR '' '' @ ds @ replicate b CHR '' '')"
      and "ds \<noteq> []" and "set ds \<subseteq> set ''0123456789''"
      and "hd ds = CHR ''0'' \<longrightarrow> ds = ''0''" and "length ds \<le> 15" for a ds b
  proof -
    from that(3) have digits: "\<forall>c\<in>set ds. is_digit c"
      by (intro ballI digit_char) (rule subsetD)
    from that(2) digits
    have t: "trim (replicate a CHR '' '' @ ds @ replicate b CHR '' '') = ds"
      by (rule trim_padded_digits)
    from that(2) digits that(4,5) have p: "parseInt10 ds = Finite ds"
      by (rule parseInt10_digits)
    show ?thesis
    proof (rule parsed [OF that(1)])
      show "trim (replicate a CHR '' '' @ ds @ replicate b CHR '' '') \<noteq> []"
        unfolding t by (rule that(2))
      show "parseInt10 (trim (replicate a CHR '' '' @ ds @ replicate b CHR '' '')) = Finite ds"
        unfolding t by (rule p)
    qed
  qed
  have default: "uri = ''http://localhost:3000/oauth-callback''"
    if "\<forall>t. ?rawPort \<noteq> JNumber (Finite t)"
      and "\<forall>s. ?rawPort = JString s \<longrightarrow> trim s = [] \<or> (\<forall>t. parseInt10 (trim s) \<noteq> Finite t)"
    using resolveServerPort_default [OF that] by (simp add: uri_def)
  have none: "uri = ''http://localhost:3000/oauth-callback''"
    if "\<nexists>props sprops port. config = JObject props \<and>
          map_of props ''server'' = Some (JObject sprops) \<and> map_of sprops ''port'' = Some port"
    using no_configured_port [OF that] by (intro default) simp_all
  have r: "redirect_uri reply = uri"
    by (simp add: reply_def)
  have 6: "\<forall>props sprops port.
      config = JObject props \<and> map_of props ''server'' = Some (JObject sprops) \<and>
      map_of sprops ''port'' = Some port \<longrightarrow>
        (\<forall>t. port = JNumber (Finite t) \<longrightarrow>
           redirect_uri reply = ''http://localhost:'' @ t @ ''/oauth-callback'') \<and>
        (\<forall>a ds b. port = JString (replicate a CHR '' '' @ ds @ replicate b CHR '' '') \<and>
           ds \<noteq> [] \<and> set ds \<subseteq> set ''0123456789'' \<and> (hd ds = CHR ''0'' \<longrightarrow> ds = ''0'') \<and>
           length ds \<le> 15 \<longrightarrow>
           redirect_uri reply = ''http://localhost:'' @ ds @ ''/oauth-callback'') \<and>
        (\<forall>s t. port = JString s \<and> trim s \<noteq> [] \<and> parseInt10 (trim s) = Finite t \<longrightarrow>
           redirect_uri reply = ''http://localhost:'' @ t @ ''/oauth-callback'') \<and>
        ((\<forall>t. port \<noteq> JNumber (Finite t)) \<and>
         (\<forall>s. port = JString s \<longrightarrow> trim s = [] \<or> (\<forall>t. parseInt10 (trim s) \<noteq> Finite t)) \<longrightarrow>
           redirect_uri reply = ''http://localhost:3000/oauth-callback'')"
  proof (intro allI impI conjI; elim conjE)
    fix props sprops port t
    assume "config = JObject props" and "map_of props ''server'' = Some (JObject sprops)"
      and "map_of sprops ''port'' = Some port" and "port = JNumber (Finite t)"
    then have "?rawPort = JNumber (Finite t)" by simp
    then show "redirect_uri reply = ''http://localhost:'' @ t @ ''/oauth-callback''"
      unfolding r by (rule number)
  next
    fix props sprops port a ds b
    assume "config = JObject props" and "map_of props ''server'' = Some (JObject sprops)"
      and "map_of sprops ''port'' = Some port"
      and "port = JString (replicate a CHR '' '' @ ds @ replicate b CHR '' '')"
      and ds: "ds \<noteq> []" "set ds \<subseteq> set ''0123456789''" "hd ds = CHR ''0'' \<longrightarrow> ds = ''0''"
        "length ds \<le> 15"
    then have "?rawPort = JString (replicate a CHR '' '' @ ds @ replicate b CHR '' '')" by simp
    from this ds show "redirect_uri reply = ''http://localhost:'' @ ds @ ''/oauth-callback''"
      unfolding r by (rule numeral)
  next
    fix props sprops port s t
    assume "config = JObject props" and "map_of props ''server'' = Some (JObject sprops)"
      and "map_of sprops ''port'' = Some port" and "port = JString s"
      and s: "trim s \<noteq> []" "parseInt10 (trim s) = Finite t"
    then have "?rawPort = JString s" by simp
    from this s show "redirect_uri reply = ''http://localhost:'' @ t @ ''/oauth-callback''"
      unfolding r by (rule parsed)
  next
    fix props sprops port
    assume "config = JObject props" and "map_of props ''server'' = Some (JObject sprops)"
      and "map_of sprops ''port'' = Some port"
      and p: "\<forall>t. port \<noteq> JNumber (Finite t)"
        "\<forall>s. port = JString s \<longrightarrow> trim s = [] \<or> (\<forall>t. parseInt10 (trim s) \<noteq> Finite t)"
    then have "?rawPort = port" by simp
    with p show "redirect_uri reply = ''http://localhost:3000/oauth-callback''"
      unfolding r by (intro default) simp_all
  qed
  have 1: "state reply = fresh"
    by (simp add: reply_def)
  have 2: "auth_url reply = buildAuthUrl clientId fresh (redirect_uri reply)"
    by (simp add: reply_def)
  have 3: "expires_in_ms reply = 1800000"
    by (simp add: reply_def SESSION_TTL_MS_def)
  have 4: "store1 = (cleanupExpiredSessions now store0)
      (fresh \<mapsto> Session \<lparr>createdAt = now', redirectUri = redirect_uri reply, result = None\<rparr>)"
    by (simp add: store1_def reply_def)
  have 5: "(\<nexists>props sprops port. config = JObject props \<and>
        map_of props ''server'' = Some (JObject sprops) \<and> map_of sprops ''port'' = Some port) \<longrightarrow>
      redirect_uri reply = ''http://localhost:3000/oauth-callback''"
  proof
    assume "\<nexists>props sprops port. config = JObject props \<and>
        map_of props ''server'' = Some (JObject sprops) \<and> map_of sprops ''port'' = Some port"
    from none [OF this] show "redirect_uri reply = ''http://localhost:3000/oauth-callback''"
      by (simp add: reply_def)
  qed
  show ?thesis
    by (rule exI [of _ reply], rule exI [of _ store1]) (intro conjI start 1 2 3 4 5 6)
qed

theorem startOAuthSession_reply_witness:
  "startOAuthSession 1000 1001 ''s1'' ''client''
      (JObject [(''server'', JObject [(''port'', JNumber (Finite ''8080''))])]) Map.empty =
     (\<lparr>state = ''s1'',
       auth_url = buildAuthUrl ''client'' ''s1'' ''http://localhost:8080/oauth-callback'',
       redirect_uri = ''http://localhost:8080/oauth-callback'', expires_in_ms = 1800000\<rparr>,
      [''s1'' \<mapsto> Session \<lparr>createdAt = 1001,
         redirectUri = ''http://localhost:8080/oauth-callback'', result = None\<rparr>]) \<and>
   redirect_uri (fst (startOAuthSession 1000 1001 ''s1'' ''client''
      (JObject [(''server'', JObject [(''port'', JNumber (Finite ''8080.5''))])]) Map.empty)) =
     ''http://localhost:8080.5/oauth-callback'' \<and>
   redirect_uri (fst (startOAuthSession 1000 1001 ''s1'' ''client''
      (JObject [(''server'', JObject [(''port'', JString ''  8081 '')])]) Map.empty)) =
     ''http://localhost:8081/oauth-callback'' \<and>
   redirect_uri (fst (startOAuthSession 1000 1001 ''s1'' ''client''
      (JObject [(''server'', JObject [(''port'', JString ''9007199254740993'')])]) Map.empty)) =
     ''http://localhost:9007199254740992/oauth-callback'' \<and>
   redirect_uri (fst (startOAuthSession 1000 1001 ''s1'' ''client''
      (JObject [(''server'', JObject [(''port'', JString ''9007199254740995'')])]) Map.empty)) =
     ''http://localhost:9007199254740996/oauth-callback'' \<and>
   redirect_uri (fst (startOAuthSession 1000 1001 ''s1'' ''client''
      (JObject [(''server'', JObject [(''port'', JString ''1000000000000000000000'')])]) Map.empty)) =
     ''http://localhost:1e+21/oauth-callback'' \<and>
   redirect_uri (fst (startOAuthSession 1000 1001 ''s1'' ''client''
      (JObject [(''server'', JObject [(''port'', JString ''-5'')])]) Map.empty)) =
     ''http://localhost:-5/oauth-callback'' \<and>
   redirect_uri (fst (startOAuthSession 1000 1001 ''s1'' ''client''
      (JObject [(''server'', JObject [(''port'', JString ''8080abc'')])]) Map.empty)) =
     ''http://localhost:8080/oauth-callback'' \<and>
   redirect_uri (fst (startOAuthSession 1000 1001 ''s1'' ''client''
      (JObject [(''server'', JObject [(''port'', JString ''abc'')])]) Map.empty)) =
     ''http://localhost:3000/oauth-callback'' \<and>
   redirect_uri (fst (startOAuthSession 1000 1001 ''s1'' ''client''
      (JObject [(''server'', JObject [(''port'', JNumber NaN)])]) Map.empty)) =
     ''http://localhost:3000/oauth-callback'' \<and>
   redirect_uri (fst (startOAuthSession 1000 1001 ''s1'' ''client'' JUndefined Map.empty)) =
     ''http://localhost:3000/oauth-callback''"
proof -
  let ?start = "\<lambda>config. startOAuthSession 1000 1001 ''s1'' ''client'' config Map.empty"
  let ?config = "\<lambda>port. JObject [(''server'', JObject [(''port'', port)])]"
  have "?start (?config (JNumber (Finite ''8080''))) =
     (\<lparr>state = ''s1'',
       auth_url = buildAuthUrl ''client'' ''s1'' ''http://localhost:8080/oauth-callback'',
       redirect_uri = ''http://localhost:8080/oauth-callback'', expires_in_ms = 1800000\<rparr>,
      [''s1'' \<mapsto> Session \<lparr>createdAt = 1001,
         redirectUri = ''http://localhost:8080/oauth-callback'', result = None\<rparr>])"
    using startOAuthSession_reply
      [of 1000 1001 "''s1''" "''client''" "?config (JNumber (Finite ''8080''))" Map.empty]
    by (elim exE conjE) (simp add: cleanupExpiredSessions_def)
  moreover
  have "redirect_uri (fst (?start (?config (JNumber (Finite ''8080.5''))))) =
      ''http://localhost:8080.5/oauth-callback''"
    using startOAuthSession_reply
      [of 1000 1001 "''s1''" "''client''" "?config (JNumber (Finite ''8080.5''))" Map.empty]
    by (elim exE conjE) simp
  moreover
  have "redirect_uri (fst (?start (?config (JString ''  8081 '')))) =
      ''http://localhost:8081/oauth-callback''"
  proof -
    from startOAuthSession_reply
      [of 1000 1001 "''s1''" "''client''" "?config (JString ''  8081 '')" Map.empty]
    obtain reply store1 where
      start: "?start (?config (JString ''  8081 '')) = (reply, store1)"
      and port: "\<forall>props sprops port.
        ?config (JString ''  8081 '') = JObject props \<and>
        map_of props ''server'' = Some (JObject sprops) \<and> map_of sprops ''port'' = Some port \<longrightarrow>
          (\<forall>t. port = JNumber (Finite t) \<longrightarrow>
             redirect_uri reply = ''http://localhost:'' @ t @ ''/oauth-callback'') \<and>
          (\<forall>a ds b. port = JString (replicate a CHR '' '' @ ds @ replicate b CHR '' '') \<and>
             ds \<noteq> [] \<and> set ds \<subseteq> set ''0123456789'' \<and> (hd ds = CHR ''0'' \<longrightarrow> ds = ''0'') \<and>
             length ds \<le> 15 \<longrightarrow>
             redirect_uri reply = ''http://localhost:'' @ ds @ ''/oauth-callback'') \<and>
          (\<forall>s t. port = JString s \<and> trim s \<noteq> [] \<and> parseInt10 (trim s) = Finite t \<longrightarrow>
             redirect_uri reply = ''http://localhost:'' @ t @ ''/oauth-callback'') \<and>
          ((\<forall>t. port \<noteq> JNumber (Finite t)) \<and>
           (\<forall>s. port = JString s \<longrightarrow> trim s = [] \<or> (\<forall>t. parseInt10 (trim s) \<noteq> Finite t)) \<longrightarrow>
             redirect_uri reply = ''http://localhost:3000/oauth-callback'')"
      by (elim exE conjE) (rule that; assumption)
    from port [rule_format, of "[(''server'', JObject [(''port'', JString ''  8081 '')])]"
        "[(''port'', JString ''  8081 '')]" "JString ''  8081 ''"]
    have "\<forall>a ds b. JString ''  8081 '' = JString (replicate a CHR '' '' @ ds @ replicate b CHR '' '') \<and>
             ds \<noteq> [] \<and> set ds \<subseteq> set ''0123456789'' \<and> (hd ds = CHR ''0'' \<longrightarrow> ds = ''0'') \<and>
             length ds \<le> 15 \<longrightarrow>
             redirect_uri reply = ''http://localhost:'' @ ds @ ''/oauth-callback''"
      by simp
    from this [rule_format, of "Suc (Suc 0)" "''8081''" "Suc 0"] start show ?thesis
      by simp
  qed
  moreover
  have "redirect_uri (fst (?start (?config (JString ''9007199254740993'')))) =
      ''http://localhost:9007199254740992/oauth-callback''"
    using startOAuthSession_reply
      [of 1000 1001 "''s1''" "''client''" "?config (JString ''9007199254740993'')" Map.empty]
    by (elim exE conjE) (simp add: trim_digits is_digit_def char_between_def parseInt10_tie_down)
  moreover
  have "redirect_uri (fst (?start (?config (JString ''9007199254740995'')))) =
      ''http://localhost:9007199254740996/oauth-callback''"
    using startOAuthSession_reply
      [of 1000 1001 "''s1''" "''client''" "?config (JString ''9007199254740995'')" Map.empty]
    by (elim exE conjE) (simp add: trim_digits is_digit_def char_between_def parseInt10_tie_up)
  moreover
  have "redirect_uri (fst (?start (?config (JString ''1000000000000000000000'')))) =
      ''http://localhost:1e+21/oauth-callback''"
    using startOAuthSession_reply
      [of 1000 1001 "''s1''" "''client''" "?config (JString ''1000000000000000000000'')" Map.empty]
    by (elim exE conjE) (simp add: trim_digits is_digit_def char_between_def parseInt10_exponent)
  moreover
  have "redirect_uri (fst (?start (?config (JString ''-5'')))) =
      ''http://localhost:-5/oauth-callback''"
    using startOAuthSession_reply
      [of 1000 1001 "''s1''" "''client''" "?config (JString ''-5'')" Map.empty]
    by (elim exE conjE) (simp add: trim_negative parseInt10_negative)
  moreover
  have "redirect_uri (fst (?start (?config (JString ''8080abc'')))) =
      ''http://localhost:8080/oauth-callback''"
    using startOAuthSession_reply
      [of 1000 1001 "''s1''" "''client''" "?config (JString ''8080abc'')" Map.empty]
    by (elim exE conjE) (simp add: trim_suffix parseInt10_suffix)
  moreover
  have "redirect_uri (fst (?start (?config (JString ''abc'')))) =
      ''http://localhost:3000/oauth-callback''"
    using startOAuthSession_reply
      [of 1000 1001 "''s1''" "''client''" "?config (JString ''abc'')" Map.empty]
    by (elim exE conjE) (simp add: trim_abc parseInt10_abc)
  moreover
  have "redirect_uri (fst (?start (?config (JNumber NaN)))) =
      ''http://localhost:3000/oauth-callback''"
    using startOAuthSession_reply
      [of 1000 1001 "''s1''" "''client''" "?config (JNumber NaN)" Map.empty]
    by (elim exE conjE) simp
  moreover
  have "redirect_uri (fst (?start JUndefined)) = ''http://localhost:3000/oauth-callback''"
    using startOAuthSession_reply [of 1000 1001 "''s1''" "''client''" JUndefined Map.empty]
    by (elim exE conjE) simp
  ultimately show ?thesis
    by (intro conjI)
qed

subsection \<open>The authorization URL\<close>

text \<open>
  C6. \<open>buildAuthUrl\<close> is a function of the state, the redirect URI and the client id
  alone and touches no state. Its result is the authorization endpoint of the provider
  followed by a query string that, read back, carries exactly seven parameters in this
  order: \<open>access_type=offline\<close>, the scope list joined with spaces, the state,
  \<open>prompt=consent\<close>, \<open>response_type=code\<close>, the client id and the redirect URI.
\<close>

theorem buildAuthUrl_parameters:
  "buildAuthUrl clientId st uri =
     ''https://accounts.google.com/o/oauth2/v2/auth?access_type=offline&scope=https%3A%2F%2Fwww.googleapis.com%2Fauth%2Fcloud-platform+https%3A%2F%2Fwww.googleapis.com%2Fauth%2Fuserinfo.email+https%3A%2F%2Fwww.googleapis.com%2Fauth%2Fuserinfo.profile+https%3A%2F%2Fwww.googleapis.com%2Fauth%2Fcclog+https%3A%2F%2Fwww.googleapis.com%2Fauth%2Fexperimentsandconfigs&state=''
       @ form_encode st @ ''&prompt=consent&response_type=code&client_id='' @ form_encode clientId
       @ ''&redirect_uri='' @ form_encode uri \<and>
   (\<exists>query.
      buildAuthUrl clientId st uri = ''https://accounts.google.com/o/oauth2/v2/auth?'' @ query \<and>
      parse_form_urlencoded query =
        [(''access_type'', ''offline''),
         (''scope'',
          ''https://www.googleapis.com/auth/cloud-platform https://www.googleapis.com/auth/userinfo.email https://www.googleapis.com/auth/userinfo.profile https://www.googleapis.com/auth/cclog https://www.googleapis.com/auth/experimentsandconfigs''),
         (''state'', st),
         (''prompt'', ''consent''),
         (''response_type'', ''code''),
         (''client_id'', clientId),
         (''redirect_uri'', uri)])"
proof
  show "buildAuthUrl clientId st uri =
     ''https://accounts.google.com/o/oauth2/v2/auth?access_type=offline&scope=https%3A%2F%2Fwww.googleapis.com%2Fauth%2Fcloud-platform+https%3A%2F%2Fwww.googleapis.com%2Fauth%2Fuserinfo.email+https%3A%2F%2Fwww.googleapis.com%2Fauth%2Fuserinfo.profile+https%3A%2F%2Fwww.googleapis.com%2Fauth%2Fcclog+https%3A%2F%2Fwww.googleapis.com%2Fauth%2Fexperimentsandconfigs&state=''
       @ form_encode st @ ''&prompt=consent&response_type=code&client_id='' @ form_encode clientId
       @ ''&redirect_uri='' @ form_encode uri"
    by (rule buildAuthUrl_text)
  show "\<exists>query.
      buildAuthUrl clientId st uri = ''https://accounts.google.com/o/oauth2/v2/auth?'' @ query \<and>
      parse_form_urlencoded query =
        [(''access_type'', ''offline''),
         (''scope'',
          ''https://www.googleapis.com/auth/cloud-platform https://www.googleapis.com/auth/userinfo.email https://www.googleapis.com/auth/userinfo.profile https://www.googleapis.com/auth/cclog https://www.googleapis.com/auth/experimentsandconfigs''),
         (''state'', st),
         (''prompt'', ''consent''),
         (''response_type'', ''code''),
         (''client_id'', clientId),
         (''redirect_uri'', uri)]"
    unfolding buildAuthUrl_def Let_def
    by (intro exI conjI, rule refl) (simp add: parse_serialized)
qed

theorem buildAuthUrl_parameters_witness:
  "buildAuthUrl ''client-1.apps'' ''s 1&x=y'' ''http://localhost:3000/oauth-callback'' =
     ''https://accounts.google.com/o/oauth2/v2/auth?access_type=offline&scope=https%3A%2F%2Fwww.googleapis.com%2Fauth%2Fcloud-platform+https%3A%2F%2Fwww.googleapis.com%2Fauth%2Fuserinfo.email+https%3A%2F%2Fwww.googleapis.com%2Fauth%2Fuserinfo.profile+https%3A%2F%2Fwww.googleapis.com%2Fauth%2Fcclog+https%3A%2F%2Fwww.googleapis.com%2Fauth%2Fexperimentsandconfigs&state=s+1%26x%3Dy&prompt=consent&response_type=code&client_id=client-1.apps&redirect_uri=http%3A%2F%2Flocalhost%3A3000%2Foauth-callback''"
proof -
  have "form_encode ''s 1&x=y'' = ''s+1%26x%3Dy''"
    and "form_encode ''client-1.apps'' = ''client-1.apps''"
    and "form_encode ''http://localhost:3000/oauth-callback'' =
      ''http%3A%2F%2Flocalhost%3A3000%2Foauth-callback''"
    by (simp_all add: form_eval)
  with buildAuthUrl_parameters
    [of "''client-1.apps''" "''s 1&x=y''" "''http://localhost:3000/oauth-callback''"]
  show ?thesis by simp
qed

subsection \<open>The result page\<close>

text \<open>
  C7. For every message, the page of \<open>renderOAuthResultPage\<close> is the fixed text of
  the template with the message in two places only. In the paragraph it stands
  with each of \<open>& < > " '\<close> encoded as its entity, so that none of \<open>< > " '\<close> occurs
  there. In the script it stands inside the JSON text of the payload, in which every
  \<open><\<close> is replaced by the six characters backslash, \<open>u003c\<close>, so that no \<open><\<close>, and hence no \<open></script>\<close>,
  occurs there.
\<close>

theorem renderOAuthResultPage_escapes:
  \<open>\<exists>title statusClass statusText safeMessage payloadJson.
     renderOAuthResultPage ok msg st =
       page_part1 @ title @ page_part2 @ statusClass @ page_part3 @ statusText @ page_part4
         @ title @ page_part5 @ safeMessage @ page_part6 @ payloadJson @ page_part7 \<and>
     title = (if ok then title_success else title_failure) \<and>
     statusClass = (if ok then ''success'' else ''error'') \<and>
     statusText = (if ok then text_success else text_failure) \<and>
     safeMessage = concat (map html_entity (or_else msg [])) \<and>
     CHR ''<'' \<notin> set safeMessage \<and> CHR ''>'' \<notin> set safeMessage \<and>
     CHR ''"'' \<notin> set safeMessage \<and> CHR 0x27 \<notin> set safeMessage \<and>
     payloadJson =
       concat
         (map (\<lambda>c. if c = CHR ''<'' then [CHR 0x5C, CHR ''u'', CHR ''0'', CHR ''0'', CHR ''3'', CHR ''c'']
                    else [c])
           (JSON_stringify
             [(''type'', Json_string ''oauth_result''),
              (''state'', Json_string (or_else st [])),
              (''success'', Json_boolean ok),
              (''message'', Json_string (or_else msg []))])) \<and>
     CHR ''<'' \<notin> set payloadJson\<close>
proof -
  let ?json = "JSON_stringify
             [(''type'', Json_string ''oauth_result''),
              (''state'', Json_string (or_else st [])),
              (''success'', Json_boolean ok),
              (''message'', Json_string (or_else msg []))]"
  let ?payloadJson = "replaceAll ''<'' [CHR 0x5C, CHR ''u'', CHR ''0'', CHR ''0'', CHR ''3'', CHR ''c''] ?json"
  have page: "renderOAuthResultPage ok msg st =
       page_part1 @ (if ok then title_success else title_failure) @ page_part2
         @ (if ok then ''success'' else ''error'') @ page_part3
         @ (if ok then text_success else text_failure) @ page_part4
         @ (if ok then title_success else title_failure) @ page_part5
         @ escapeHtml msg @ page_part6 @ ?payloadJson @ page_part7"
    by (simp add: renderOAuthResultPage_def Let_def)
  have payload: "?payloadJson =
      concat (map (\<lambda>c. if c = CHR ''<'' then [CHR 0x5C, CHR ''u'', CHR ''0'', CHR ''0'', CHR ''3'', CHR ''c'']
                         else [c]) ?json)"
    by (rule replaceAll_char)
  have no_lt: "CHR ''<'' \<notin> set ?payloadJson"
    by (rule replaceAll_char_absent) simp
  from page escapeHtml_entities [of msg] escapeHtml_chars [of msg] payload no_lt
  show ?thesis by (intro exI conjI) (assumption | simp)+
qed

theorem renderOAuthResultPage_escapes_witness:
  \<open>renderOAuthResultPage False (Some ''</script><b>'') (Some ''s1'') =
     page_part1 @ title_failure @ page_part2 @ ''error'' @ page_part3 @ text_failure @ page_part4
       @ title_failure @ page_part5 @ ''&lt;/script&gt;&lt;b&gt;'' @ page_part6
       @ (''{"type":"oauth_result","state":"s1","success":false,"message":"'' @ [CHR 0x5C]
            @ ''u003c/script>'' @ [CHR 0x5C] @ ''u003cb>"}'')
       @ page_part7\<close>
proof -
  from renderOAuthResultPage_escapes [of False "Some ''</script><b>''" "Some ''s1''"]
  obtain title statusClass statusText safeMessage payloadJson where
    page: "renderOAuthResultPage False (Some ''</script><b>'') (Some ''s1'') =
       page_part1 @ title @ page_part2 @ statusClass @ page_part3 @ statusText @ page_part4
         @ title @ page_part5 @ safeMessage @ page_part6 @ payloadJson @ page_part7"
    and title: "title = (if False then title_success else title_failure)"
    and statusClass: "statusClass = (if False then ''success'' else ''error'')"
    and statusText: "statusText = (if False then text_success else text_failure)"
    and safeMessage: "safeMessage = concat (map html_entity (or_else (Some ''</script><b>'') []))"
    and payloadJson: "payloadJson =
       concat
         (map (\<lambda>c. if c = CHR ''<'' then [CHR 0x5C, CHR ''u'', CHR ''0'', CHR ''0'', CHR ''3'', CHR ''c'']
                    else [c])
           (JSON_stringify
             [(''type'', Json_string ''oauth_result''),
              (''state'', Json_string (or_else (Some ''s1'') [])),
              (''success'', Json_boolean False),
              (''message'', Json_string (or_else (Some ''</script><b>'') []))]))"
    by (elim exE conjE) (rule that; assumption)
  have 1: "safeMessage = ''&lt;/script&gt;&lt;b&gt;''"
    unfolding safeMessage by (simp add: html_entity_def)
  have 2: \<open>payloadJson =
      ''{"type":"oauth_result","state":"s1","success":false,"message":"'' @ [CHR 0x5C]
        @ ''u003c/script>'' @ [CHR 0x5C] @ ''u003cb>"}''\<close>
    unfolding payloadJson
    by (simp add: JSON_stringify_def JSON_quote_def json_escape_char_def)
  show ?thesis
    unfolding page title statusClass statusText 1 2 by simp
qed

subsection \<open>The redirect URI of the exchange\<close>

text \<open>
  C8. A callback that reaches the token exchange passes to \<open>exchangeCodeForToken\<close> the
  redirect URI that \<open>startOAuthSession\<close> recorded in the session when it created it,
  whatever requests came in between (none of them minting the same token again): the
  callback takes no redirect URI from its own arguments. So the call that the callback
  adds to the log, if it adds one, has the recorded URI; and the callback depends on
  the collaborator only through what it does at the recorded URI: with any other
  collaborator that does the same there, the callback returns the same result and
  leaves the same state.
\<close>

theorem exchange_gets_recorded_redirectUri:
  assumes "startOAuthSession t t' st clientId config (sessions w0) = (reply, store1)"
    and "\<forall>r\<in>set reqs. \<not> mints st r"
    and "completeOAuthCallback now ex (Some st) code err descr am
           (run reqs (w0\<lparr>sessions := store1\<rparr>)) = (res, w')"
  shows "(exchange_calls w' = exchange_calls (run reqs (w0\<lparr>sessions := store1\<rparr>)) \<or>
          (\<exists>c. code = Some c \<and>
             exchange_calls w' =
               exchange_calls (run reqs (w0\<lparr>sessions := store1\<rparr>)) @ [(c, redirect_uri reply)])) \<and>
         (\<forall>ex'. (\<forall>c l. ex' c (redirect_uri reply) l = ex c (redirect_uri reply) l) \<longrightarrow>
            completeOAuthCallback now ex' (Some st) code err descr am
              (run reqs (w0\<lparr>sessions := store1\<rparr>)) = (res, w'))"
proof -
  let ?w = "w0\<lparr>sessions := store1\<rparr>"
  from assms(1)
  have "\<forall>s. sessions ?w st = Some (Session s) \<longrightarrow> redirectUri s = redirect_uri reply"
    by (auto simp: startOAuthSession_def Let_def sessions_set_def)
  from run_keeps_redirectUri [OF this assms(2)]
  have inv: "\<forall>s. sessions (run reqs ?w) st = Some (Session s) \<longrightarrow>
      redirectUri s = redirect_uri reply" .
  then have found: "\<forall>s. sessions_get (cleanupExpiredSessions now (sessions (run reqs ?w))) st = Some s \<longrightarrow>
      redirectUri s = redirect_uri reply"
    by (simp add: sessions_get_cleanup)
  from callback_exchange [OF assms(3)] found
  have "exchange_calls w' = exchange_calls (run reqs ?w) \<or>
      (\<exists>c. code = Some c \<and>
         exchange_calls w' = exchange_calls (run reqs ?w) @ [(c, redirect_uri reply)])"
    by auto
  moreover
  have "completeOAuthCallback now ex' (Some st) code err descr am (run reqs ?w) = (res, w')"
    if "\<forall>c l. ex' c (redirect_uri reply) l = ex c (redirect_uri reply) l" for ex'
    using callback_at_redirectUri
      [where uri = "redirect_uri reply" and ex = ex and ex' = ex', OF found that] assms(3)
    by simp
  ultimately show ?thesis by simp
qed

text \<open>
  A session started on port 8080, a poll, and then a callback whose collaborator gives
  credentials for the redirect URI of port 8080 and refuses every other one.
\<close>

theorem exchange_gets_recorded_redirectUri_witness:
  "completeOAuthCallback 2000
     (\<lambda>c u (l::unit).
        if u = ''http://localhost:8080/oauth-callback'' then Inr ''creds''
        else Inl (Error_object ''Error'' ''redirect_uri_mismatch''))
     (Some ''s1'') (Some ''abc'') None None
     (Inr \<lparr>apiLimiter = (), addAccount = (\<lambda>c::string. None)\<rparr>)
     (run ([Status 1500 ''s1''] :: (unit, string) request list)
        (\<lparr>sessions = Map.empty, exchange_calls = []\<rparr>
           \<lparr>sessions := snd (startOAuthSession 1000 1000 ''s1'' ''client''
              (JObject [(''server'', JObject [(''port'', JNumber (Finite ''8080''))])])
              Map.empty)\<rparr>)) =
   (Inr \<lparr>success = True, message = msg_auth_ok\<rparr>,
    \<lparr>sessions = [''s1'' \<mapsto> Session \<lparr>createdAt = 1000,
       redirectUri = ''http://localhost:8080/oauth-callback'',
       result = Some \<lparr>success = True, message = msg_auth_ok\<rparr>\<rparr>],
     exchange_calls = [(''abc'', ''http://localhost:8080/oauth-callback'')]\<rparr>) \<and>
   completeOAuthCallback 2000 (\<lambda>c u (l::unit). Inr ''creds'')
     (Some ''s1'') (Some ''abc'') None None
     (Inr \<lparr>apiLimiter = (), addAccount = (\<lambda>c::string. None)\<rparr>)
     (run ([Status 1500 ''s1''] :: (unit, string) request list)
        (\<lparr>sessions = Map.empty, exchange_calls = []\<rparr>
           \<lparr>sessions := snd (startOAuthSession 1000 1000 ''s1'' ''client''
              (JObject [(''server'', JObject [(''port'', JNumber (Finite ''8080''))])])
              Map.empty)\<rparr>)) =
   (Inr \<lparr>success = True, message = msg_auth_ok\<rparr>,
    \<lparr>sessions = [''s1'' \<mapsto> Session \<lparr>createdAt = 1000,
       redirectUri = ''http://localhost:8080/oauth-callback'',
       result = Some \<lparr>success = True, message = msg_auth_ok\<rparr>\<rparr>],
     exchange_calls = [(''abc'', ''http://localhost:8080/oauth-callback'')]\<rparr>)"
proof -
  let ?ex = "\<lambda>(c::string) (u::string) (l::unit).
        if u = ''http://localhost:8080/oauth-callback'' then Inr ''creds''
        else Inl (Error_object ''Error'' ''redirect_uri_mismatch'') :: thrown + string"
  let ?ex' = "\<lambda>(c::string) (u::string) (l::unit). Inr ''creds'' :: thrown + string"
  let ?am = "Inr \<lparr>apiLimiter = (), addAccount = (\<lambda>c::string. None)\<rparr>"
  let ?start = "startOAuthSession 1000 1000 ''s1'' ''client''
                 (JObject [(''server'', JObject [(''port'', JNumber (Finite ''8080''))])])
                 (sessions \<lparr>sessions = Map.empty, exchange_calls = []\<rparr>)"
  let ?reqs = "[Status 1500 ''s1''] :: (unit, string) request list"
  let ?w = "run ?reqs
              (\<lparr>sessions = Map.empty, exchange_calls = []\<rparr>\<lparr>sessions := snd ?start\<rparr>)"
  let ?res = "Inr \<lparr>success = True, message = msg_auth_ok\<rparr> :: thrown + oauth_result"
  let ?w' = "\<lparr>sessions = [''s1'' \<mapsto> Session \<lparr>createdAt = 1000,
       redirectUri = ''http://localhost:8080/oauth-callback'',
       result = Some \<lparr>success = True, message = msg_auth_ok\<rparr>\<rparr>],
     exchange_calls = [(''abc'', ''http://localhost:8080/oauth-callback'')]\<rparr>"
  have 1: "?start = (fst ?start, snd ?start)" by simp
  have 2: "\<forall>r\<in>set ?reqs. \<not> mints ''s1'' r" by simp
  have 3: "completeOAuthCallback 2000 ?ex (Some ''s1'') (Some ''abc'') None None ?am ?w =
      (?res, ?w')"
    by (simp add: eval_defs startOAuthSession_def resolveServerPort_def fun_eq_iff)
  have uri: "redirect_uri (fst (startOAuthSession 1000 1000 ''s1'' ''client''
      (JObject [(''server'', JObject [(''port'', JNumber (Finite ''8080''))])]) Map.empty)) =
      ''http://localhost:8080/oauth-callback''"
    by (simp add: startOAuthSession_def Let_def resolveServerPort_def)
  from exchange_gets_recorded_redirectUri [OF 1 2 3]
  have "\<forall>ex'. (\<forall>c l. ex' c (redirect_uri (fst ?start)) l = ?ex c (redirect_uri (fst ?start)) l) \<longrightarrow>
      completeOAuthCallback 2000 ex' (Some ''s1'') (Some ''abc'') None None ?am ?w = (?res, ?w')"
    by (rule conjunct2)
  from this [rule_format, of ?ex']
  have "completeOAuthCallback 2000 ?ex' (Some ''s1'') (Some ''abc'') None None ?am ?w =
      (?res, ?w')"
    by (simp add: uri)
  with 3 show ?thesis by simp
qed

subsection \<open>What the callback throws\<close>

text \<open>
  C9 asks that the callback never throws, whatever the collaborators do. The \<open>catch\<close>
  block reads \<open>e.message\<close> of the value it caught; when \<open>exchangeCodeForToken\<close> (or
  \<open>addAccount\<close>) throws \<open>undefined\<close> or \<open>null\<close>, that read throws a \<open>TypeError\<close>,
  which leaves the function: the promise is rejected and the session keeps
  \<open>result = null\<close>. (The same happens with a thrown value that cannot be made a
  string; lemma \<open>callback_throws_only_in_catch\<close> has all the cases.)
\<close>

theorem nullish_rejection_escapes_callback:
  "completeOAuthCallback 2000 (\<lambda>c u (l::unit). Inl (Thrown_nullish Undefined))
      (Some ''s1'') (Some ''abc'')
      None None (Inr \<lparr>apiLimiter = (), addAccount = (\<lambda>c::string. None)\<rparr>)
      \<lparr>sessions = [''s1'' \<mapsto> Session \<lparr>createdAt = 1000,
         redirectUri = ''http://localhost:3000/oauth-callback'', result = None\<rparr>],
       exchange_calls = []\<rparr> =
     (Inl (TypeError ''Cannot read properties of undefined (reading 'message')''),
      \<lparr>sessions = [''s1'' \<mapsto> Session \<lparr>createdAt = 1000,
         redirectUri = ''http://localhost:3000/oauth-callback'', result = None\<rparr>],
       exchange_calls = [(''abc'', ''http://localhost:3000/oauth-callback'')]\<rparr>)"
  by (simp add: eval_defs fun_eq_iff)

subsection \<open>The store after the eviction of an operation\<close>

text \<open>
  C10. After the eviction step, every entry left in the store is a session object with
  a truthy \<open>createdAt\<close> and an age \<open>now - createdAt\<close> of at most the TTL: falsy
  entries, entries with a falsy \<open>createdAt\<close> and entries older than the TTL are gone.
  This is the store that \<open>getOAuthStatus\<close> looks up and leaves behind, the store to
  which \<open>startOAuthSession\<close> adds its new session, and the store in which
  \<open>completeOAuthCallback\<close> looks up and updates its session.
\<close>

theorem eviction_leaves_live_sessions:
  "(\<forall>k e. cleanupExpiredSessions now store0 k = Some e \<longrightarrow>
      (\<exists>s. e = Session s \<and> createdAt s \<noteq> 0 \<and> now - createdAt s \<le> SESSION_TTL_MS)) \<and>
   snd (getOAuthStatus now st store0) = cleanupExpiredSessions now store0 \<and>
   (\<forall>k. k \<noteq> fresh \<longrightarrow>
      snd (startOAuthSession now now' fresh clientId config store0) k =
        cleanupExpiredSessions now store0 k) \<and>
   (\<forall>k e. sessions (snd (completeOAuthCallback now ex sarg code err descr am w)) k = Some e \<longrightarrow>
      (\<exists>s. e = Session s \<and> createdAt s \<noteq> 0 \<and> now - createdAt s \<le> SESSION_TTL_MS))"
proof (intro conjI allI impI)
  fix k e assume "cleanupExpiredSessions now store0 k = Some e"
  then show "\<exists>s. e = Session s \<and> createdAt s \<noteq> 0 \<and> now - createdAt s \<le> SESSION_TTL_MS"
    by (auto simp: cleanup_Some)
next
  show "snd (getOAuthStatus now st store0) = cleanupExpiredSessions now store0"
    by (simp add: getOAuthStatus_def Let_def split: option.splits)
next
  fix k assume "k \<noteq> fresh"
  then show "snd (startOAuthSession now now' fresh clientId config store0) k =
        cleanupExpiredSessions now store0 k"
    by (simp add: startOAuthSession_def Let_def sessions_set_def)
next
  fix k e
  assume a: "sessions (snd (completeOAuthCallback now ex sarg code err descr am w)) k = Some e"
  obtain res w' where c: "completeOAuthCallback now ex sarg code err descr am w = (res, w')"
    by (cases "completeOAuthCallback now ex sarg code err descr am w")
  from callback_store [OF c] a c
  show "\<exists>s. e = Session s \<and> createdAt s \<noteq> 0 \<and> now - createdAt s \<le> SESSION_TTL_MS"
    by (auto simp: cleanup_Some sessions_get_cleanup split: if_splits)
qed

theorem eviction_leaves_live_sessions_witness:
  "cleanupExpiredSessions 2000000
     [''old'' \<mapsto> Session \<lparr>createdAt = 1000, redirectUri = ''u'', result = None\<rparr>,
      ''zero'' \<mapsto> Session \<lparr>createdAt = 0, redirectUri = ''u'', result = None\<rparr>,
      ''bad'' \<mapsto> Falsy,
      ''new'' \<mapsto> Session \<lparr>createdAt = 1500000, redirectUri = ''u'', result = None\<rparr>] =
   [''new'' \<mapsto> Session \<lparr>createdAt = 1500000, redirectUri = ''u'', result = None\<rparr>] \<and>
   (\<exists>s. Session \<lparr>createdAt = 1500000, redirectUri = ''u'', result = None\<rparr> = Session s \<and>
      createdAt s \<noteq> 0 \<and> 2000000 - createdAt s \<le> SESSION_TTL_MS)"
proof -
  let ?store = "[''old'' \<mapsto> Session \<lparr>createdAt = 1000, redirectUri = ''u'', result = None\<rparr>,
      ''zero'' \<mapsto> Session \<lparr>createdAt = 0, redirectUri = ''u'', result = None\<rparr>,
      ''bad'' \<mapsto> Falsy,
      ''new'' \<mapsto> Session \<lparr>createdAt = 1500000, redirectUri = ''u'', result = None\<rparr>]"
  have eq: "cleanupExpiredSessions 2000000 ?store =
      [''new'' \<mapsto> Session \<lparr>createdAt = 1500000, redirectUri = ''u'', result = None\<rparr>]"
    by (simp add: cleanupExpiredSessions_def SESSION_TTL_MS_def fun_eq_iff)
  then have new: "cleanupExpiredSessions 2000000 ?store ''new'' =
      Some (Session \<lparr>createdAt = 1500000, redirectUri = ''u'', result = None\<rparr>)"
    by simp
  from eviction_leaves_live_sessions [of 2000000 ?store]
  have "\<forall>k e. cleanupExpiredSessions 2000000 ?store k = Some e \<longrightarrow>
      (\<exists>s. e = Session s \<and> createdAt s \<noteq> 0 \<and> 2000000 - createdAt s \<le> SESSION_TTL_MS)"
    by (rule conjunct1)
  from this [rule_format, OF new] eq show ?thesis
    by (intro conjI)
qed

end
